theory Spec2Isabelle
  imports Main
begin

unbundle bit_operations_syntax

section \<open>Data model\<close>

text \<open>
  The middleware of \<^verbatim>\<open>web/middleware.go\<close> works on values of the chat platform's client
  library. Only the fields the middleware reads or writes are kept. Go's \<^verbatim>\<open>int\<close> is
  modelled by \<open>int\<close>: the code only combines permission masks with bitwise or and compares
  positions, and neither operation can leave the machine range.
\<close>

record role =
  Role_ID :: string
  Role_Permissions :: int
  Role_Position :: int

record channel =
  Channel_ID :: string
  Channel_Name :: string

record guild =
  Guild_ID :: string
  Guild_Name :: string
  Guild_Region :: string
  Guild_OwnerID :: string
  Guild_Roles :: "role list"
  Guild_Channels :: "channel list"

record user_guild =
  UserGuild_ID :: string
  UserGuild_Name :: string
  UserGuild_Owner :: bool
  UserGuild_Permissions :: int

record member =
  Member_UserID :: string
  Member_Roles :: "string list"

record user =
  User_ID :: string
  User_Username :: string

text \<open>
  Errors. \<^verbatim>\<open>PublicError\<close> is the struct of the source with its one field \<^verbatim>\<open>msg\<close>; a value
  \<open>PublicError m\<close> stands for the non-nil pointer that \<^verbatim>\<open>NewPublicError\<close> returns. Every
  other error type is \<open>OtherError\<close>, carrying the text of its \<^verbatim>\<open>Error()\<close> method. The nil
  error is \<open>None\<close> of \<open>go_error option\<close>.
\<close>

datatype go_error = PublicError string | OtherError string

fun Error :: "go_error \<Rightarrow> string" where
  "Error (PublicError msg) = msg"
| "Error (OtherError txt) = txt"

text \<open>\<^verbatim>\<open>NewPublicError(a...)\<close> with string arguments: \<^verbatim>\<open>fmt.Sprint\<close> concatenates strings.\<close>

definition NewPublicError :: "string list \<Rightarrow> go_error" where
  "NewPublicError a = PublicError (concat a)"

subsection \<open>Alerts and page-render data\<close>

datatype alert_style = AlertDanger | AlertSuccess | AlertInfo | AlertWarning

record alert =
  Style :: alert_style
  Message :: string

text \<open>The values the middleware puts into the page-render data.\<close>

datatype tvalue =
  TGuild nat
| TBool bool
| TInt int
| TRole "role option"
| TMember member

record template_data =
  Fields :: "(string \<times> tvalue) list"
  Alerts :: "alert list"

text \<open>
  Modelled from the spec: \<^verbatim>\<open>ErrorAlert\<close> and \<^verbatim>\<open>SucessAlert\<close> are not in the source file. An
  alert is a (severity, message) entry; the message is the printed form of the arguments,
  which for string arguments is their concatenation.
\<close>

definition ErrorAlert :: "string list \<Rightarrow> alert" where
  "ErrorAlert args = \<lparr>Style = AlertDanger, Message = concat args\<rparr>"

definition SucessAlert :: "string list \<Rightarrow> alert" where
  "SucessAlert args = \<lparr>Style = AlertSuccess, Message = concat args\<rparr>"

subsection \<open>The request context\<close>

text \<open>
  \<^verbatim>\<open>context.Context\<close> is a bag of values under keys. Each key of the source holds values of
  one type, so the bag is a record of optional fields: \<open>None\<close> is the nil that
  \<^verbatim>\<open>ctx.Value\<close> returns for a key never set. Guilds and page-render data are stored by
  pointer: the field holds an address into the heap of the \<open>world\<close> below. The highest bot
  role is a pointer that may be stored as nil, hence \<open>role option option\<close>.
\<close>

type_synonym form = "(string \<times> string) list"

record "context" =
  ContextKeyRedis :: "nat option"
  ContextKeyUser :: "user option"
  ContextKeyGuilds :: "user_guild list option"
  ContextKeyCurrentGuild :: "nat option"
  ContextKeyCurrentUserGuild :: "user_guild option"
  ContextKeyGuildChannels :: "channel list option"
  ContextKeyBotMember :: "member option"
  ContextKeyHighestBotRole :: "role option option"
  ContextKeyBotPermissions :: "int option"
  ContextKeyParsedForm :: "form option"
  ContextKeyFormOk :: "bool option"
  ContextKeyTemplateData :: "nat option"

text \<open>
  Of a request the middleware reads the URL, the path parameter \<^verbatim>\<open>server\<close>, the content
  type, the body and the context.
\<close>

record request =
  URL :: string
  Param_server :: string
  Header_content_type :: string
  Body :: string
  ctx :: "context"

subsection \<open>The world outside the request\<close>

datatype log_level = LevelInfo | LevelWarn | LevelError

record log_entry =
  Level :: log_level
  Msg :: string
  Err :: "go_error option"
  LogFields :: "(string \<times> string) list"

text \<open>Lookups and writes done on external services, in the order they happen.\<close>

datatype ext_call =
  CallGetGuild string
| CallGetGuildChannels string
| CallGetBotMember string
| CallGuildMember string string
| CallSave form string
| CallAddCPLogEntry user string string

text \<open>What is handed to the response writer: raw bytes, or a value given to the JSON encoder.\<close>

datatype jvalue =
  JBool bool
| JString string
| JInt int
| JObject "(string \<times> jvalue) list"

datatype iface = INil | IData jvalue | IError go_error

datatype body_write = WriteRaw string | WriteJson iface

record world =
  guilds :: "guild list"
  tmpls :: "template_data list"
  resp_header :: "(string \<times> string) list"
  resp_status :: "nat option"
  resp_body :: "body_write list"
  logs :: "log_entry list"
  calls :: "ext_call list"

text \<open>
  A handler either returns or panics; a panic keeps the world it left behind, since
  deferred calls still run on it.
\<close>

datatype 'a outcome = Return 'a world | Panic string world

type_synonym handler = "request \<Rightarrow> world \<Rightarrow> unit outcome"

type_synonym ControllerHandlerFunc =
  "request \<Rightarrow> world \<Rightarrow> (nat option \<times> go_error option) outcome"

type_synonym CustomHandlerFunc = "request \<Rightarrow> world \<Rightarrow> iface outcome"

text \<open>
  The collaborators that are not part of the source file: the platform client, the cache,
  the sidecar service, the form parser and decoder, the process-wide configuration, and the
  helpers \<^verbatim>\<open>IsAdminCtx\<close>, \<^verbatim>\<open>ValidateForm\<close> and \<^verbatim>\<open>CheckErr\<close> of the package. They are
  parameters of the model. \<open>Decode\<close> gives the decoded value (possibly filled in part)
  and the decoder's error; \<open>ValidateForm\<close> gives its verdict and the alerts it adds to the
  page-render data.
\<close>

record env =
  IsAcceptingRequests :: bool
  GetGuild :: "nat option \<Rightarrow> string \<Rightarrow> go_error + guild"
  GetGuildChannels :: "nat option \<Rightarrow> string \<Rightarrow> go_error + channel list"
  GetBotMember :: "string \<Rightarrow> go_error + member"
  GuildMember :: "string \<Rightarrow> string \<Rightarrow> go_error + member"
  Conf_BotID :: string
  IsAdminCtx :: "context \<Rightarrow> bool"
  ParseForm :: "string \<Rightarrow> go_error + form"
  ParseMultipartForm :: "string \<Rightarrow> go_error + form"
  Decode :: "string \<Rightarrow> form \<Rightarrow> form \<times> go_error option"
  ValidateForm :: "guild option \<Rightarrow> form \<Rightarrow> bool \<times> alert list"
  Save :: "form \<Rightarrow> nat option \<Rightarrow> string \<Rightarrow> go_error option"
  CheckErr :: "nat \<Rightarrow> go_error option \<Rightarrow> string \<Rightarrow> world \<Rightarrow> bool \<times> world"

section \<open>Helpers on the heap, the log and the response\<close>

definition guild_at :: "world \<Rightarrow> nat \<Rightarrow> guild option" where
  "guild_at w a = (if a < length (guilds w) then Some (guilds w ! a) else None)"

definition tmpl_at :: "world \<Rightarrow> nat \<Rightarrow> template_data option" where
  "tmpl_at w a = (if a < length (tmpls w) then Some (tmpls w ! a) else None)"

definition log_add :: "log_level \<Rightarrow> string \<Rightarrow> go_error option \<Rightarrow> (string \<times> string) list
    \<Rightarrow> world \<Rightarrow> world" where
  "log_add lv m e fs w =
     w\<lparr>logs := logs w @ [\<lparr>Level = lv, Msg = m, Err = e, LogFields = fs\<rparr>]\<rparr>"

definition call_add :: "ext_call \<Rightarrow> world \<Rightarrow> world" where
  "call_add c w = w\<lparr>calls := calls w @ [c]\<rparr>"

text \<open>\<^verbatim>\<open>w.Header().Set(k, v)\<close>.\<close>

definition Header_Set :: "string \<Rightarrow> string \<Rightarrow> world \<Rightarrow> world" where
  "Header_Set k v w = w\<lparr>resp_header := (k, v) # filter (\<lambda>p. fst p \<noteq> k) (resp_header w)\<rparr>"

definition Header_Get :: "world \<Rightarrow> string \<Rightarrow> string option" where
  "Header_Get w k = map_of (resp_header w) k"

text \<open>
  \<^verbatim>\<open>w.WriteHeader(code)\<close>: the first status written is the one sent. \<^verbatim>\<open>w.Write\<close> sends the
  status 200 when none was written before.
\<close>

definition WriteHeader :: "nat \<Rightarrow> world \<Rightarrow> world" where
  "WriteHeader code w = (if resp_status w = None then w\<lparr>resp_status := Some code\<rparr> else w)"

definition Write :: "body_write \<Rightarrow> world \<Rightarrow> world" where
  "Write b w = (WriteHeader 200 w)\<lparr>resp_body := resp_body (WriteHeader 200 w) @ [b]\<rparr>"

definition StatusTemporaryRedirect :: nat where
  "StatusTemporaryRedirect = 307"

definition StatusInternalServerError :: nat where
  "StatusInternalServerError = 500"

text \<open>\<^verbatim>\<open>http.Redirect\<close>: the Location header and the status.\<close>

definition Redirect :: "string \<Rightarrow> nat \<Rightarrow> world \<Rightarrow> world" where
  "Redirect url code w = WriteHeader code (Header_Set ''Location'' url w)"

text \<open>
  Modelled from the spec: \<^verbatim>\<open>TemplateData.AddAlerts\<close> is not in the source file. The
  page-render data carries a sequence of alerts, and adding alerts appends to it. The
  object is the one at address \<open>a\<close>; the result is \<open>None\<close> when there is no such object
  (a nil map in the source, whose update panics).
\<close>

definition AddAlerts :: "nat \<Rightarrow> alert list \<Rightarrow> world \<Rightarrow> world option" where
  "AddAlerts a als w =
     (case tmpl_at w a of
        None \<Rightarrow> None
      | Some t \<Rightarrow> Some (w\<lparr>tmpls := (tmpls w)[a := t\<lparr>Alerts := Alerts t @ als\<rparr>]\<rparr>))"

text \<open>
  Modelled from the spec: \<^verbatim>\<open>SetContextTemplateData\<close> is not in the source file. The
  page-render data is an accumulating bag shared by reference: when the context already
  has one, the new entries are added to that object and the context is returned as it is;
  otherwise a new object holding the entries is allocated and stored in the context.
\<close>

definition SetContextTemplateData ::
    "context \<Rightarrow> (string \<times> tvalue) list \<Rightarrow> world \<Rightarrow> context \<times> world" where
  "SetContextTemplateData c kvs w =
     (case ContextKeyTemplateData c of
        Some a \<Rightarrow>
          (case tmpl_at w a of
             Some t \<Rightarrow> (c, w\<lparr>tmpls := (tmpls w)[a := t\<lparr>Fields := Fields t @ kvs\<rparr>]\<rparr>)
           | None \<Rightarrow> (c, w))
      | None \<Rightarrow>
          (c\<lparr>ContextKeyTemplateData := Some (length (tmpls w))\<rparr>,
           w\<lparr>tmpls := tmpls w @ [\<lparr>Fields = kvs, Alerts = []\<rparr>]\<rparr>))"

text \<open>
  Modelled from the spec: \<^verbatim>\<open>RedisClientFromContext\<close> is not in the source file. It reads
  the cache client that \<^verbatim>\<open>RedisMiddleware\<close> stored in the context, nil when there is none.
\<close>

definition RedisClientFromContext :: "context \<Rightarrow> nat option" where
  "RedisClientFromContext c = ContextKeyRedis c"

section \<open>The permission aggregator\<close>

text \<open>The inner loop of \<^verbatim>\<open>RequireBotMemberMW\<close>: scan the bot's role ids, stop at a match.\<close>

fun role_found :: "string list \<Rightarrow> string \<Rightarrow> bool" where
  "role_found [] rid = False"
| "role_found (mr # mrs) rid = (if mr = rid then True else role_found mrs rid)"

text \<open>The outer loop, with its two variables \<^verbatim>\<open>highest\<close> and \<^verbatim>\<open>combinedPerms\<close>.\<close>

fun aggregate :: "role list \<Rightarrow> string list \<Rightarrow> role option \<Rightarrow> int \<Rightarrow> role option \<times> int" where
  "aggregate [] mroles highest combinedPerms = (highest, combinedPerms)"
| "aggregate (r # rs) mroles highest combinedPerms =
     (if \<not> role_found mroles (Role_ID r) then aggregate rs mroles highest combinedPerms
      else aggregate rs mroles
             (case highest of
                None \<Rightarrow> Some r
              | Some h \<Rightarrow> if Role_Position r > Role_Position h then Some r else Some h)
             (combinedPerms OR Role_Permissions r))"

text \<open>
  A deferred call of a handler: it runs when the body is left, by a return or by a panic;
  a panic of the body goes on after it, unless the deferred call panics itself.
\<close>

fun deferred :: "handler \<Rightarrow> request \<Rightarrow> unit outcome \<Rightarrow> unit outcome" where
  "deferred h r (Return u w) = h r w"
| "deferred h r (Panic p w) =
     (case h r w of Return u w' \<Rightarrow> Panic p w' | Panic p' w' \<Rightarrow> Panic p' w')"

text \<open>
  The first lines of \<^verbatim>\<open>RequireBotMemberMW\<close>: ask the sidecar for the bot's member record
  and fall back to the platform API.
\<close>

definition fetch_bot_member :: "env \<Rightarrow> request \<Rightarrow> world \<Rightarrow> (go_error + member) \<times> world" where
  "fetch_bot_member e r w =
     (let w1 = call_add (CallGetBotMember (Param_server r)) w
      in case GetBotMember e (Param_server r) of
           Inr m \<Rightarrow> (Inr m, w1)
         | Inl err \<Rightarrow>
             (let w2 = log_add LevelWarn ''FALLING BACK TO DISCORD API FOR BOT MEMBER''
                         (Some err) [] w1;
                  w3 = call_add (CallGuildMember (Param_server r) (Conf_BotID e)) w2;
                  w4 = log_add LevelInfo (Conf_BotID e) None [] w3
              in (GuildMember e (Param_server r) (Conf_BotID e), w4)))"

text \<open>
  \<^verbatim>\<open>RequireBotMemberMW\<close>. The deferred call of the inner handler reads the variable \<^verbatim>\<open>r\<close>
  when it runs, so it sees the new context only on the path that reaches the assignment
  \<^verbatim>\<open>r = r.WithContext(ctx)\<close>; on the two early returns it gets the request as it came in.
\<close>

definition RequireBotMemberMW :: "env \<Rightarrow> handler \<Rightarrow> handler" where
  "RequireBotMemberMW e inner r w =
     (case fetch_bot_member e r w of
        (Inl err, w5) \<Rightarrow>
          Return ()
            (Redirect ''/?err=errFailedRetrievingBotMember'' StatusTemporaryRedirect
               (log_add LevelError ''Failed retrieving bot member'' (Some err) [] w5))
      | (Inr m, w5) \<Rightarrow>
          (let (c1, w6) = SetContextTemplateData (ctx r) [(''BotMember'', TMember m)] w5;
               c2 = c1\<lparr>ContextKeyBotMember := Some m\<rparr>;
               w7 = log_add LevelInfo ''Checking if guild is available'' None [] w6
           in case ContextKeyCurrentGuild c2 of
                None \<Rightarrow> deferred inner r (Return () w7)
              | Some a \<Rightarrow>
                  (case guild_at w7 a of
                     None \<Rightarrow> deferred inner r (Panic ''nil pointer dereference'' w7)
                   | Some g \<Rightarrow>
                       if length (Guild_Roles g) < 1 then deferred inner r (Return () w7)
                       else
                         (let w8 = log_add LevelInfo ''full guild available'' None [] w7;
                              (highest, combinedPerms) =
                                 aggregate (Guild_Roles g) (Member_Roles m) None 0;
                              c3 = c2\<lparr>ContextKeyHighestBotRole := Some highest\<rparr>;
                              c4 = c3\<lparr>ContextKeyBotPermissions := Some combinedPerms\<rparr>;
                              (c5, w9) = SetContextTemplateData c4
                                 [(''HighestRole'', TRole highest),
                                  (''BotPermissions'', TInt combinedPerms)] w8
                          in deferred inner (r\<lparr>ctx := c5\<rparr>) (Return () w9)))))"

section \<open>Headers and shutdown\<close>

definition MiscMiddleware :: "env \<Rightarrow> handler \<Rightarrow> handler" where
  \<open>MiscMiddleware e inner r w =
     (if \<not> IsAcceptingRequests e
      then Return () (Write (WriteRaw ''{"error":"Shutting down, try again in a minute"}'') w)
      else inner r (Header_Set ''Strict-Transport-Security'' ''max-age=31536000'' w))\<close>

section \<open>The target-organization resolver\<close>

text \<open>
  \<^verbatim>\<open>strconv.ParseInt(s, 10, 64)\<close>: an optional sign, then one or more decimal digits, and
  the value must fit 64 bits.
\<close>

definition is_digit :: "char \<Rightarrow> bool" where
  "is_digit c = (c \<in> set ''0123456789'')"

fun digits_value :: "string \<Rightarrow> nat \<Rightarrow> nat" where
  "digits_value [] acc = acc"
| "digits_value (c # cs) acc = digits_value cs (acc * 10 + (of_char c - 48))"

definition ParseInt64 :: "string \<Rightarrow> go_error + int" where
  "ParseInt64 s =
     (let (neg, ds) =
            (case s of
               [] \<Rightarrow> (False, [])
             | c # t \<Rightarrow> if c = CHR ''+'' then (False, t)
                        else if c = CHR ''-'' then (True, t) else (False, s));
          v = digits_value ds 0
      in if ds = [] \<or> \<not> list_all is_digit ds then Inl (OtherError ''invalid syntax'')
         else if neg then
           (if v > 2 ^ 63 then Inl (OtherError ''value out of range'') else Inr (- int v))
         else
           (if v \<ge> 2 ^ 63 then Inl (OtherError ''value out of range'') else Inr (int v)))"

definition setFullGuild ::
    "env \<Rightarrow> context \<Rightarrow> string \<Rightarrow> world \<Rightarrow> (context \<times> go_error option) \<times> world" where
  "setFullGuild e c guildID w =
     (let w1 = call_add (CallGetGuild guildID) w
      in case GetGuild e (RedisClientFromContext c) guildID of
           Inl err \<Rightarrow> ((c, Some err), log_add LevelError ''Failed retrieving guild'' (Some err) [] w1)
         | Inr fullGuild \<Rightarrow>
             (let a = length (guilds w1);
                  w2 = w1\<lparr>guilds := guilds w1 @ [fullGuild]\<rparr>;
                  (c1, w3) = SetContextTemplateData c [(''ActiveGuild'', TGuild a)] w2
              in ((c1\<lparr>ContextKeyCurrentGuild := Some a\<rparr>, None), w3)))"

text \<open>The scan of the membership list, leaving at the first entry with the id.\<close>

fun find_user_guild :: "user_guild list \<Rightarrow> string \<Rightarrow> user_guild option" where
  "find_user_guild [] guildID = None"
| "find_user_guild (g # gs) guildID =
     (if UserGuild_ID g = guildID then Some g else find_user_guild gs guildID)"

text \<open>
  The two fallback branches of \<^verbatim>\<open>ActiveServerMW\<close> are the same but for the last log line.
\<close>

definition full_guild_fallback :: "env \<Rightarrow> handler \<Rightarrow> string \<Rightarrow> handler" where
  "full_guild_fallback e inner info r w =
     (let ((c1, err), w1) = setFullGuild e (ctx r) (Param_server r) w;
          w2 = (case err of
                  Some er \<Rightarrow> log_add LevelError ''Failed setting full guild'' (Some er) [] w1
                | None \<Rightarrow> w1);
          r1 = r\<lparr>ctx := c1\<rparr>;
          w3 = log_add LevelInfo info None [] w2
      in deferred inner r1 (Return () w3))"

definition ActiveServerMW :: "env \<Rightarrow> handler \<Rightarrow> handler" where
  "ActiveServerMW e inner r w =
     (let c = ctx r; guildID = Param_server r
      in case ParseInt64 guildID of
           Inl err \<Rightarrow>
             deferred inner r
               (Return () (log_add LevelError ''GuilID is not a number'' (Some err) [] w))
         | Inr n \<Rightarrow>
             (case ContextKeyGuilds c of
                None \<Rightarrow>
                  full_guild_fallback e inner ''No guilds, set full guild instead of userguild'' r w
              | Some gs \<Rightarrow>
                  (case find_user_guild gs guildID of
                     None \<Rightarrow> full_guild_fallback e inner ''Userguild not found'' r w
                   | Some userGuild \<Rightarrow>
                       (let a = length (guilds w);
                            fullGuild = \<lparr>Guild_ID = UserGuild_ID userGuild,
                                         Guild_Name = UserGuild_Name userGuild,
                                         Guild_Region = [], Guild_OwnerID = [],
                                         Guild_Roles = [], Guild_Channels = []\<rparr>;
                            w1 = w\<lparr>guilds := guilds w @ [fullGuild]\<rparr>;
                            c1 = c\<lparr>ContextKeyCurrentUserGuild := Some userGuild\<rparr>;
                            c2 = c1\<lparr>ContextKeyCurrentGuild := Some a\<rparr>;
                            isAdmin = IsAdminCtx e c2;
                            (c3, w2) = SetContextTemplateData c2
                               [(''ActiveGuild'', TGuild a), (''IsAdmin'', TBool isAdmin)] w1
                        in deferred inner (r\<lparr>ctx := c3\<rparr>) (Return () w2)))))"

section \<open>Guards on the active organization\<close>

definition RequireActiveServer :: "handler \<Rightarrow> handler" where
  "RequireActiveServer inner r w =
     (case ContextKeyCurrentGuild (ctx r) of
        None \<Rightarrow> Return () (Redirect ''/?err=no_active_guild'' StatusTemporaryRedirect w)
      | Some v \<Rightarrow> inner r w)"

text \<open>
  The type assertion \<^verbatim>\<open>ctx.Value(common.ContextKeyCurrentGuild).(*discordgo.Guild)\<close> has no
  second result: on a nil value it panics.
\<close>

definition assert_guild_panic :: string where
  "assert_guild_panic = ''interface conversion: interface {} is nil, not *discordgo.Guild''"

definition RequireGuildChannelsMiddleware :: "env \<Rightarrow> handler \<Rightarrow> handler" where
  "RequireGuildChannelsMiddleware e inner r w =
     (case ContextKeyCurrentGuild (ctx r) of
        None \<Rightarrow> Panic assert_guild_panic w
      | Some a \<Rightarrow>
          (case guild_at w a of
             None \<Rightarrow> Panic ''nil pointer dereference'' w
           | Some guild \<Rightarrow>
               (let w1 = call_add (CallGetGuildChannels (Guild_ID guild)) w
                in case GetGuildChannels e (RedisClientFromContext (ctx r)) (Guild_ID guild) of
                     Inl err \<Rightarrow>
                       Return ()
                         (Redirect ''/?err=retrievingchannels'' StatusTemporaryRedirect
                            (log_add LevelError ''Failed retrieving channels'' (Some err) [] w1))
                   | Inr channels \<Rightarrow>
                       inner (r\<lparr>ctx := (ctx r)\<lparr>ContextKeyGuildChannels := Some channels\<rparr>\<rparr>)
                         (w1\<lparr>guilds := (guilds w1)[a := guild\<lparr>Guild_Channels := channels\<rparr>]\<rparr>))))"

definition RequireFullGuildMW :: "env \<Rightarrow> handler \<Rightarrow> handler" where
  "RequireFullGuildMW e inner r w =
     (case ContextKeyCurrentGuild (ctx r) of
        None \<Rightarrow> Panic assert_guild_panic w
      | Some a \<Rightarrow>
          (case guild_at w a of
             None \<Rightarrow> Panic ''nil pointer dereference'' w
           | Some guild \<Rightarrow>
               if Guild_OwnerID guild \<noteq> [] then inner r w
               else
                 (let w1 = call_add (CallGetGuild (Guild_ID guild)) w
                  in case GetGuild e (RedisClientFromContext (ctx r)) (Guild_ID guild) of
                       Inl err \<Rightarrow>
                         Return ()
                           (Redirect ''/?err=errretrievingguild'' StatusTemporaryRedirect
                              (log_add LevelError ''Failed retrieving guild'' (Some err) [] w1))
                     | Inr fullGuild \<Rightarrow>
                         inner r
                           (w1\<lparr>guilds := (guilds w1)
                                  [a := guild\<lparr>Guild_Region := Guild_Region fullGuild,
                                             Guild_OwnerID := Guild_OwnerID fullGuild,
                                             Guild_Roles := Guild_Roles fullGuild\<rparr>]\<rparr>))))"

section \<open>The JSON wrapper\<close>

text \<open>
  \<^verbatim>\<open>cast, ok := out.(error)\<close>: the assertion to the interface \<^verbatim>\<open>error\<close> succeeds when the
  value held by \<^verbatim>\<open>out\<close> is of an error type, and then \<^verbatim>\<open>cast\<close> holds that value; it fails
  on the nil interface and on every other value, and then \<^verbatim>\<open>cast\<close> is the nil error.
\<close>

fun assert_error :: "iface \<Rightarrow> go_error option \<times> bool" where
  "assert_error (IError er) = (Some er, True)"
| "assert_error out = (None, False)"

definition APIHandler :: "CustomHandlerFunc \<Rightarrow> handler" where
  "APIHandler inner r w =
     (case inner r w of
        Panic p w' \<Rightarrow> Panic p w'
      | Return out w1 \<Rightarrow>
          (let (cast, ok) = assert_error out;
               (out2, w2) =
                 (if ok then
                    (let (out1, wa) =
                           (case cast of
                              None \<Rightarrow> (IData (JObject [(''ok'', JBool True)]), w1)
                            | Some ce \<Rightarrow>
                                ((case ce of
                                    PublicError msg \<Rightarrow>
                                      IData (JObject [(''ok'', JBool False), (''error'', JString msg)])
                                  | OtherError txt \<Rightarrow> out),
                                 log_add LevelError ''API Error'' (Some ce) [(''req'', URL r)] w1))
                     in (out1, WriteHeader StatusInternalServerError wa))
                  else (out, w1))
           in if out2 \<noteq> INil then Return () (Write (WriteJson out2) w2) else Return () w2))"

section \<open>The form pipeline\<close>

text \<open>\<^verbatim>\<open>strings.Contains\<close>.\<close>

fun Contains :: "string \<Rightarrow> string \<Rightarrow> bool" where
  "Contains [] substr = (substr = [])"
| "Contains (c # cs) substr =
     (if take (length substr) (c # cs) = substr then True else Contains cs substr)"

text \<open>
  Modelled from the spec: \<^verbatim>\<open>GetBaseCPContextData\<close> is not in the source file. It reads the
  cache client, the active organization and the page-render data out of the request
  context; the two lookups of the organization and of the render data are unchecked, so
  the result is \<open>None\<close> (a panic) when either is missing.
\<close>

definition GetBaseCPContextData :: "context \<Rightarrow> (nat option \<times> nat \<times> nat) option" where
  "GetBaseCPContextData c =
     (case ContextKeyCurrentGuild c of
        None \<Rightarrow> None
      | Some g \<Rightarrow>
          (case ContextKeyTemplateData c of
             None \<Rightarrow> None
           | Some t \<Rightarrow> Some (RedisClientFromContext c, g, t)))"

definition FormParserMW :: "env \<Rightarrow> handler \<Rightarrow> string \<Rightarrow> handler" where
  "FormParserMW e inner dst r w =
     (case (if Contains (Header_content_type r) ''multipart/form-data''
            then ParseMultipartForm e (Body r) else ParseForm e (Body r)) of
        Inl err \<Rightarrow> Panic (Error err) w
      | Inr values \<Rightarrow>
          (case GetBaseCPContextData (ctx r) of
             None \<Rightarrow> Panic ''interface conversion: interface {} is nil'' w
           | Some (client, guild, tmpl) \<Rightarrow>
               (let (decoded, err) = Decode e dst values;
                    checked =
                      (case err of
                         Some er \<Rightarrow>
                           (case AddAlerts tmpl [ErrorAlert [''Failed parsing form'']]
                                   (log_add LevelError ''Failed decoding form'' (Some er) [] w) of
                              None \<Rightarrow> Panic ''assignment to entry in nil map''
                                        (log_add LevelError ''Failed decoding form'' (Some er) [] w)
                            | Some w1 \<Rightarrow> Return False w1)
                       | None \<Rightarrow>
                           (let (ok, als) = ValidateForm e (guild_at w guild) decoded
                            in case AddAlerts tmpl als w of
                                 None \<Rightarrow> Panic ''assignment to entry in nil map'' w
                               | Some w1 \<Rightarrow> Return ok w1))
                in case checked of
                     Panic p w' \<Rightarrow> Panic p w'
                   | Return ok w2 \<Rightarrow>
                       inner (r\<lparr>ctx := (ctx r)\<lparr>ContextKeyParsedForm := Some decoded,
                                                ContextKeyFormOk := Some ok\<rparr>\<rparr>) w2)))"

text \<open>
  A \<^verbatim>\<open>SimpleConfigSaver\<close>: the type of the configuration, which is the schema the form is
  decoded into, and the name it is logged under. Its \<^verbatim>\<open>Save\<close> is \<open>Save\<close> of the environment.
\<close>

record SimpleConfigSaver =
  Saver_Type :: string
  Saver_Name :: string

fun deferred_opt :: "handler option \<Rightarrow> request \<Rightarrow> unit outcome \<Rightarrow> unit outcome" where
  "deferred_opt None r out = out"
| "deferred_opt (Some h) r out = deferred h r out"

definition assert_panic :: string where
  "assert_panic = ''interface conversion: interface {} is nil''"

text \<open>The handler that \<^verbatim>\<open>SimpleConfigSaverHandler\<close> gives to \<^verbatim>\<open>FormParserMW\<close>.\<close>

definition SimpleConfigSaver_body :: "env \<Rightarrow> SimpleConfigSaver \<Rightarrow> handler option \<Rightarrow> handler" where
  "SimpleConfigSaver_body e t extraHandler r w =
     (case GetBaseCPContextData (ctx r) of
        None \<Rightarrow> Panic assert_panic w
      | Some (client, g, templateData) \<Rightarrow>
          deferred_opt extraHandler r
            (case ContextKeyParsedForm (ctx r) of
               None \<Rightarrow> Panic assert_panic w
             | Some form \<Rightarrow>
                 (case ContextKeyFormOk (ctx r) of
                    None \<Rightarrow> Panic assert_panic w
                  | Some ok \<Rightarrow>
                      if \<not> ok then Return () w
                      else
                        (case guild_at w g of
                           None \<Rightarrow> Panic ''nil pointer dereference'' w
                         | Some gv \<Rightarrow>
                             (let err = Save e form client (Guild_ID gv);
                                  w1 = call_add (CallSave form (Guild_ID gv)) w;
                                  (failed, w2) = CheckErr e templateData err ''Failed saving config'' w1
                              in if \<not> failed then
                                   (case AddAlerts templateData [SucessAlert [''Sucessfully saved! :')'']] w2 of
                                      None \<Rightarrow> Panic ''assignment to entry in nil map'' w2
                                    | Some w3 \<Rightarrow>
                                        (case ContextKeyUser (ctx r) of
                                           Some user \<Rightarrow>
                                             Return ()
                                               (call_add
                                                  (CallAddCPLogEntry user (Guild_ID gv)
                                                     (''Updated '' @ Saver_Name t @ '' Config.'')) w3)
                                         | None \<Rightarrow> Return () w3))
                                 else Return () w2)))))"

definition SimpleConfigSaverHandler :: "env \<Rightarrow> SimpleConfigSaver \<Rightarrow> handler option \<Rightarrow> handler" where
  "SimpleConfigSaverHandler e t extraHandler =
     FormParserMW e (SimpleConfigSaver_body e t extraHandler) (Saver_Type t)"

section \<open>The controller adapter\<close>

definition checkControllerError ::
    "nat option \<Rightarrow> nat \<Rightarrow> go_error option \<Rightarrow> world \<Rightarrow> unit outcome" where
  "checkControllerError guild data err w =
     (case err of
        None \<Rightarrow> Return () w
      | Some er \<Rightarrow>
          (case AddAlerts data
                  [case er of
                     PublicError msg \<Rightarrow> ErrorAlert [Error er]
                   | OtherError txt \<Rightarrow> ErrorAlert [''An error occured... Contact support.'']] w of
             None \<Rightarrow> Panic ''assignment to entry in nil map'' w
           | Some w1 \<Rightarrow>
               (case guild of
                  None \<Rightarrow>
                    Return () (log_add LevelError ''Web handler reported error'' (Some er) [] w1)
                | Some a \<Rightarrow>
                    (case guild_at w1 a of
                       None \<Rightarrow> Panic ''nil pointer dereference'' w1
                     | Some g \<Rightarrow>
                         Return ()
                           (log_add LevelError ''Web handler reported error'' (Some er)
                              [(''guild'', Guild_ID g)] w1)))))"

text \<open>
  The handler that \<^verbatim>\<open>ControllerPostHandler\<close> gives to \<^verbatim>\<open>FormParserMW\<close>. The audit entry
  is written by a goroutine of its own in the source; here it is the last recorded call.
\<close>

definition ControllerPost_body ::
    "ControllerHandlerFunc \<Rightarrow> handler option \<Rightarrow> string \<Rightarrow> handler" where
  "ControllerPost_body mainHandler extraHandler logMsg r w =
     (case GetBaseCPContextData (ctx r) of
        None \<Rightarrow> Panic assert_panic w
      | Some (client, g, templateData) \<Rightarrow>
          deferred_opt extraHandler r
            (case ContextKeyFormOk (ctx r) of
               None \<Rightarrow> Panic assert_panic w
             | Some ok \<Rightarrow>
                 if \<not> ok then Return () w
                 else
                   (case mainHandler r w of
                      Panic p w' \<Rightarrow> Panic p w'
                    | Return (data0, err) w1 \<Rightarrow>
                        (let data = (case data0 of None \<Rightarrow> templateData | Some d \<Rightarrow> d)
                         in case checkControllerError (Some g) data err w1 of
                              Panic p w' \<Rightarrow> Panic p w'
                            | Return u w2 \<Rightarrow>
                                if err = None then
                                  (case AddAlerts data [SucessAlert [''Sucessfully saved! :')'']] w2 of
                                     None \<Rightarrow> Panic ''assignment to entry in nil map'' w2
                                   | Some w3 \<Rightarrow>
                                       (case ContextKeyUser (ctx r) of
                                          Some user \<Rightarrow>
                                            (case guild_at w3 g of
                                               None \<Rightarrow> Panic ''nil pointer dereference'' w3
                                             | Some gv \<Rightarrow>
                                                 Return ()
                                                   (call_add
                                                      (CallAddCPLogEntry user (Guild_ID gv) logMsg) w3))
                                        | None \<Rightarrow> Return () w3))
                                else Return () w2))))"

definition ControllerPostHandler ::
    "env \<Rightarrow> ControllerHandlerFunc \<Rightarrow> handler option \<Rightarrow> string \<Rightarrow> string \<Rightarrow> handler" where
  "ControllerPostHandler e mainHandler extraHandler formData logMsg =
     FormParserMW e (ControllerPost_body mainHandler extraHandler logMsg) formData"

section \<open>Specification-side definitions\<close>

text \<open>
  The bitwise or of the permission masks of a list of roles, as the specification words
  it; \<open>aggregate\<close> above is the loop of the source.
\<close>

definition or_over :: "role list \<Rightarrow> int" where
  "or_over rs = foldr (\<lambda>r acc. Role_Permissions r OR acc) rs 0"

text \<open>The update of \<^verbatim>\<open>highest\<close> done for one matching role.\<close>

definition pick :: "role \<Rightarrow> role option \<Rightarrow> role option" where
  "pick r highest = (case highest of None \<Rightarrow> Some r
       | Some h \<Rightarrow> if Role_Position r > Role_Position h then Some r else Some h)"

subsection \<open>Example values\<close>

definition example_roles :: "role list" where
  "example_roles =
     [\<lparr>Role_ID = ''r1'', Role_Permissions = 8, Role_Position = 2\<rparr>,
      \<lparr>Role_ID = ''r2'', Role_Permissions = 4, Role_Position = 5\<rparr>,
      \<lparr>Role_ID = ''r3'', Role_Permissions = 16, Role_Position = 5\<rparr>,
      \<lparr>Role_ID = ''r4'', Role_Permissions = 1, Role_Position = 9\<rparr>]"

definition example_guild :: guild where
  "example_guild =
     \<lparr>Guild_ID = ''42'', Guild_Name = ''guild'', Guild_Region = ''eu'', Guild_OwnerID = ''7'',
      Guild_Roles = example_roles, Guild_Channels = []\<rparr>"

definition stub_guild :: guild where
  "stub_guild =
     \<lparr>Guild_ID = ''42'', Guild_Name = ''guild'', Guild_Region = [], Guild_OwnerID = [],
      Guild_Roles = [], Guild_Channels = []\<rparr>"

definition example_member :: member where
  "example_member = \<lparr>Member_UserID = ''bot'', Member_Roles = [''r3'', ''r1'', ''r2'']\<rparr>"

definition example_env :: env where
  "example_env =
     \<lparr>IsAcceptingRequests = True,
      GetGuild = (\<lambda>c gid. if gid = ''42'' then Inr example_guild else Inl (OtherError ''unknown guild'')),
      GetGuildChannels = (\<lambda>c gid. Inr []),
      GetBotMember = (\<lambda>s. Inr example_member),
      GuildMember = (\<lambda>s b. Inl (OtherError ''unavailable'')),
      Conf_BotID = ''bot'',
      IsAdminCtx = (\<lambda>c. True),
      ParseForm = (\<lambda>b. Inr [(''name'', b)]),
      ParseMultipartForm = (\<lambda>b. Inl (OtherError ''bad multipart body'')),
      Decode = (\<lambda>dst vs. (vs, if dst = ''strict'' then Some (OtherError ''schema mismatch'') else None)),
      ValidateForm = (\<lambda>g f. (True, [])),
      Save = (\<lambda>f c gid. None),
      CheckErr = (\<lambda>t err msg w. (err \<noteq> None, w))\<rparr>"

definition empty_context :: "context" where
  "empty_context =
     \<lparr>ContextKeyRedis = None, ContextKeyUser = None, ContextKeyGuilds = None,
      ContextKeyCurrentGuild = None, ContextKeyCurrentUserGuild = None,
      ContextKeyGuildChannels = None, ContextKeyBotMember = None,
      ContextKeyHighestBotRole = None, ContextKeyBotPermissions = None,
      ContextKeyParsedForm = None, ContextKeyFormOk = None, ContextKeyTemplateData = None\<rparr>"

definition example_world :: world where
  "example_world =
     \<lparr>guilds = [example_guild, stub_guild], tmpls = [\<lparr>Fields = [], Alerts = []\<rparr>],
      resp_header = [], resp_status = None, resp_body = [], logs = [], calls = []\<rparr>"

definition example_request :: request where
  "example_request =
     \<lparr>URL = ''/manage/42'', Param_server = ''42'',
      Header_content_type = ''application/x-www-form-urlencoded'', Body = ''hello'',
      ctx = empty_context\<lparr>ContextKeyCurrentGuild := Some 0, ContextKeyTemplateData := Some 0\<rparr>\<rparr>"

fun is_panic :: "'a outcome \<Rightarrow> bool" where
  "is_panic (Panic p w) = True"
| "is_panic (Return u w) = False"

definition noop_handler :: handler where
  "noop_handler r w = Return () w"

definition stub_request :: request where
  "stub_request = example_request\<lparr>ctx := (ctx example_request)\<lparr>ContextKeyCurrentGuild := Some 1\<rparr>\<rparr>"

definition anonymous_request :: request where
  "anonymous_request = example_request\<lparr>ctx := empty_context\<rparr>"

definition unknown_request :: request where
  "unknown_request = anonymous_request\<lparr>Param_server := ''77''\<rparr>"

definition shutdown_env :: env where
  "shutdown_env = example_env\<lparr>IsAcceptingRequests := False\<rparr>"

fun outcome_world :: "'a outcome \<Rightarrow> world" where
  "outcome_world (Return u w) = w"
| "outcome_world (Panic p w) = w"

definition nil_handler :: CustomHandlerFunc where
  "nil_handler r w = Return INil w"

definition failing_handler :: CustomHandlerFunc where
  "failing_handler r w = Return (IError (OtherError ''connection refused'')) w"

text \<open>The body of the request as the form pipeline parses it, by content type.\<close>

definition parsed_body :: "env \<Rightarrow> request \<Rightarrow> go_error + form" where
  "parsed_body e r =
     (if Contains (Header_content_type r) ''multipart/form-data''
      then ParseMultipartForm e (Body r) else ParseForm e (Body r))"

definition rejected_request :: request where
  "rejected_request =
     example_request\<lparr>ctx := (ctx example_request)\<lparr>ContextKeyParsedForm := Some [(''name'', ''hello'')],
                                                   ContextKeyFormOk := Some False\<rparr>\<rparr>"

definition example_saver :: SimpleConfigSaver where
  "example_saver = \<lparr>Saver_Type = ''strict'', Saver_Name = ''Example''\<rparr>"

definition failing_main :: ControllerHandlerFunc where
  "failing_main r w = Return (None, Some (OtherError ''database down'')) w"

definition marking_handler :: handler where
  "marking_handler r w = Return () (Header_Set ''X-Extra'' ''ran'' w)"

definition accepted_request :: request where
  "accepted_request =
     example_request\<lparr>ctx := (ctx example_request)\<lparr>ContextKeyParsedForm := Some [(''name'', ''hello'')],
                                                   ContextKeyFormOk := Some True\<rparr>\<rparr>"

text \<open>The context holds a full record: an allocated organization with an owner id.\<close>

definition full_record :: "request \<Rightarrow> world \<Rightarrow> bool" where
  "full_record r w =
     (case ContextKeyCurrentGuild (ctx r) of
        None \<Rightarrow> False
      | Some a \<Rightarrow> (case guild_at w a of None \<Rightarrow> False | Some g \<Rightarrow> Guild_OwnerID g \<noteq> []))"

section \<open>Properties of the permission aggregator\<close>

lemma role_found_iff: "role_found ms rid = (rid \<in> set ms)"
  by (induction ms) auto

lemma aggregate_perms:
  "snd (aggregate rs ms h p) = p OR or_over (filter (\<lambda>x. Role_ID x \<in> set ms) rs)"
  by (induction rs arbitrary: h p) (simp_all add: or_over_def role_found_iff or.assoc)

lemma bit_or_over: "bit (or_over rs) n = (\<exists>x\<in>set rs. bit (Role_Permissions x) n)"
  by (induction rs) (auto simp: or_over_def bit_or_iff)

lemma aggregate_highest:
  "fst (aggregate rs ms h p) = fold pick (filter (\<lambda>x. Role_ID x \<in> set ms) rs) h"
  by (induction rs arbitrary: h p) (simp_all add: role_found_iff pick_def)

lemma fold_pick_first_max:
  "(xs = [] \<and> fold pick xs None = None) \<or>
   (\<exists>i<length xs. fold pick xs None = Some (xs ! i)
      \<and> (\<forall>j<i. Role_Position (xs ! j) < Role_Position (xs ! i))
      \<and> (\<forall>j<length xs. Role_Position (xs ! j) \<le> Role_Position (xs ! i)))"
proof (induction xs rule: rev_induct)
  case Nil
  show ?case by simp
next
  case (snoc x xs)
  show ?case
  proof (cases "xs = []")
    case True
    then show ?thesis by (simp add: pick_def)
  next
    case False
    with snoc obtain i where i: "i < length xs" "fold pick xs None = Some (xs ! i)"
      "\<forall>j<i. Role_Position (xs ! j) < Role_Position (xs ! i)"
      "\<forall>j<length xs. Role_Position (xs ! j) \<le> Role_Position (xs ! i)"
      by blast
    show ?thesis
    proof (cases "Role_Position x > Role_Position (xs ! i)")
      case True
      have "fold pick (xs @ [x]) None = Some ((xs @ [x]) ! length xs)"
        using i True by (simp add: pick_def)
      moreover have "\<forall>j<length xs.
          Role_Position ((xs @ [x]) ! j) < Role_Position ((xs @ [x]) ! length xs)"
        using i True by (auto simp: nth_append)
      moreover have "\<forall>j<length (xs @ [x]).
          Role_Position ((xs @ [x]) ! j) \<le> Role_Position ((xs @ [x]) ! length xs)"
        using i True by (auto simp: nth_append less_Suc_eq)
      ultimately show ?thesis by (intro disjI2 exI[of _ "length xs"]) simp
    next
      case False
      have "fold pick (xs @ [x]) None = Some ((xs @ [x]) ! i)"
        using i False by (simp add: pick_def nth_append)
      moreover have "\<forall>j<i. Role_Position ((xs @ [x]) ! j) < Role_Position ((xs @ [x]) ! i)"
        using i by (auto simp: nth_append)
      moreover have "\<forall>j<length (xs @ [x]).
          Role_Position ((xs @ [x]) ! j) \<le> Role_Position ((xs @ [x]) ! i)"
        using i False by (auto simp: nth_append less_Suc_eq)
      ultimately show ?thesis using i(1) by (intro disjI2 exI[of _ i]) simp
    qed
  qed
qed

lemma guilds_log_add [simp]: "guilds (log_add lv m er fs w) = guilds w"
  by (simp add: log_add_def)

lemma guilds_call_add [simp]: "guilds (call_add c w) = guilds w"
  by (simp add: call_add_def)

lemma guild_at_log_add [simp]: "guild_at (log_add lv m er fs w) a = guild_at w a"
  by (simp add: guild_at_def)

lemma guild_at_call_add [simp]: "guild_at (call_add c w) a = guild_at w a"
  by (simp add: guild_at_def)

lemma SetContextTemplateData_keeps:
  assumes "SetContextTemplateData c kvs w = (c', w')"
  shows "guild_at w' a = guild_at w a"
    and "ContextKeyCurrentGuild c' = ContextKeyCurrentGuild c"
    and "ContextKeyHighestBotRole c' = ContextKeyHighestBotRole c"
    and "ContextKeyBotPermissions c' = ContextKeyBotPermissions c"
    and "ContextKeyBotMember c' = ContextKeyBotMember c"
  using assms
  by (auto simp: SetContextTemplateData_def guild_at_def split: option.splits)

lemma fetch_bot_member_keeps:
  assumes "fetch_bot_member e r w = (res, w')"
  shows "guild_at w' a = guild_at w a"
  using assms by (auto simp: fetch_bot_member_def Let_def split: sum.splits)

lemma fetch_bot_member_fst:
  "fst (fetch_bot_member e r w) =
     (case GetBotMember e (Param_server r) of
        Inr m \<Rightarrow> Inr m
      | Inl err \<Rightarrow> GuildMember e (Param_server r) (Conf_BotID e))"
  by (simp add: fetch_bot_member_def Let_def split: sum.splits)

lemma RequireBotMemberMW_aggregates:
  assumes m: "fst (fetch_bot_member e r w) = Inr m"
    and a: "ContextKeyCurrentGuild (ctx r) = Some a"
    and g: "guild_at w a = Some g"
    and ne: "Guild_Roles g \<noteq> []"
  shows "\<exists>r' w'. (\<forall>inner. RequireBotMemberMW e inner r w = inner r' w')
      \<and> ContextKeyHighestBotRole (ctx r') = Some (fst (aggregate (Guild_Roles g) (Member_Roles m) None 0))
      \<and> ContextKeyBotPermissions (ctx r') = Some (snd (aggregate (Guild_Roles g) (Member_Roles m) None 0))"
proof -
  obtain w5 where f: "fetch_bot_member e r w = (Inr m, w5)"
    using m by (cases "fetch_bot_member e r w") simp
  have g5: "guild_at w5 a = Some g"
    using fetch_bot_member_keeps [OF f] g by simp
  obtain c1 w6 where s1: "SetContextTemplateData (ctx r) [(''BotMember'', TMember m)] w5 = (c1, w6)"
    by (cases "SetContextTemplateData (ctx r) [(''BotMember'', TMember m)] w5")
  have c1: "ContextKeyCurrentGuild c1 = Some a"
    using SetContextTemplateData_keeps(2) [OF s1] a by simp
  have g6: "guild_at w6 a = Some g"
    using SetContextTemplateData_keeps(1) [OF s1] g5 by simp
  obtain hi cp where ag: "aggregate (Guild_Roles g) (Member_Roles m) None 0 = (hi, cp)"
    by (cases "aggregate (Guild_Roles g) (Member_Roles m) None 0")
  define c4 where "c4 = c1\<lparr>ContextKeyBotMember := Some m, ContextKeyHighestBotRole := Some hi,
      ContextKeyBotPermissions := Some cp\<rparr>"
  define w8 where "w8 = log_add LevelInfo ''full guild available'' None []
      (log_add LevelInfo ''Checking if guild is available'' None [] w6)"
  obtain c5 w9 where s2: "SetContextTemplateData c4
      [(''HighestRole'', TRole hi), (''BotPermissions'', TInt cp)] w8 = (c5, w9)"
    by (cases "SetContextTemplateData c4 [(''HighestRole'', TRole hi), (''BotPermissions'', TInt cp)] w8")
  have run: "RequireBotMemberMW e inner r w = inner (r\<lparr>ctx := c5\<rparr>) w9" for inner
    using f s1 c1 g6 ne ag s2
    by (simp add: RequireBotMemberMW_def Let_def c4_def w8_def)
  have "ContextKeyHighestBotRole c5 = Some hi" "ContextKeyBotPermissions c5 = Some cp"
    using SetContextTemplateData_keeps(3,4) [OF s2] by (simp_all add: c4_def)
  with run ag show ?thesis
    by (intro exI[of _ "r\<lparr>ctx := c5\<rparr>"] exI[of _ w9]) simp
qed

lemma RequireBotMemberMW_no_roles:
  assumes m: "fst (fetch_bot_member e r w) = Inr m"
    and a: "ContextKeyCurrentGuild (ctx r) = Some a"
    and g: "guild_at w a = Some g"
    and ne: "Guild_Roles g = []"
  shows "\<exists>w'. \<forall>inner. RequireBotMemberMW e inner r w = inner r w'"
proof -
  obtain w5 where f: "fetch_bot_member e r w = (Inr m, w5)"
    using m by (cases "fetch_bot_member e r w") simp
  have g5: "guild_at w5 a = Some g"
    using fetch_bot_member_keeps [OF f] g by simp
  obtain c1 w6 where s1: "SetContextTemplateData (ctx r) [(''BotMember'', TMember m)] w5 = (c1, w6)"
    by (cases "SetContextTemplateData (ctx r) [(''BotMember'', TMember m)] w5")
  have c1: "ContextKeyCurrentGuild c1 = Some a"
    using SetContextTemplateData_keeps(2) [OF s1] a by simp
  have g6: "guild_at w6 a = Some g"
    using SetContextTemplateData_keeps(1) [OF s1] g5 by simp
  have "RequireBotMemberMW e inner r w = inner r (log_add LevelInfo ''Checking if guild is available'' None [] w6)" for inner
    using f s1 c1 g6 ne
    by (simp add: RequireBotMemberMW_def Let_def)
  then show ?thesis by blast
qed


text \<open>
  Claim C1. Whichever way the bot's member record \<open>m\<close> was obtained (sidecar or platform
  API), and for every active organization \<open>g\<close>: when the role list of \<open>g\<close> is not empty,
  the inner handler is run on a context whose permission entry is the bitwise or of the
  permissions of exactly the roles of \<open>g\<close> whose id is among the role ids of \<open>m\<close> (bit
  \<open>n\<close> of the stored mask is set iff some such role has bit \<open>n\<close> set); when the role
  list is empty, the inner handler is run on the request as it came in, so that neither
  a permission value nor a highest role has been stored.
\<close>

theorem RequireBotMemberMW_combined_permissions:
  assumes m: "GetBotMember e (Param_server r) = Inr m \<or>
      (\<exists>err. GetBotMember e (Param_server r) = Inl err \<and>
         GuildMember e (Param_server r) (Conf_BotID e) = Inr m)"
    and a: "ContextKeyCurrentGuild (ctx r) = Some a"
    and g: "guild_at w a = Some g"
  shows "if Guild_Roles g = []
         then \<exists>w'. \<forall>inner. RequireBotMemberMW e inner r w = inner r w'
         else \<exists>r' w' P.
                (\<forall>inner. RequireBotMemberMW e inner r w = inner r' w') \<and>
                ContextKeyBotPermissions (ctx r') = Some P \<and>
                P = or_over (filter (\<lambda>x. Role_ID x \<in> set (Member_Roles m)) (Guild_Roles g)) \<and>
                (\<forall>n. bit P n =
                   (\<exists>x\<in>set (Guild_Roles g). Role_ID x \<in> set (Member_Roles m) \<and>
                      bit (Role_Permissions x) n))"
proof -
  have f: "fst (fetch_bot_member e r w) = Inr m"
    using m by (auto simp: fetch_bot_member_fst)
  show ?thesis
  proof (cases "Guild_Roles g = []")
    case True
    then show ?thesis using RequireBotMemberMW_no_roles [OF f a g] by simp
  next
    case False
    let ?P = "or_over (filter (\<lambda>x. Role_ID x \<in> set (Member_Roles m)) (Guild_Roles g))"
    from RequireBotMemberMW_aggregates [OF f a g False]
    obtain r' w' where run: "\<forall>inner. RequireBotMemberMW e inner r w = inner r' w'"
      and p: "ContextKeyBotPermissions (ctx r') =
          Some (snd (aggregate (Guild_Roles g) (Member_Roles m) None 0))"
      by blast
    have p': "ContextKeyBotPermissions (ctx r') = Some ?P"
      using p by (simp add: aggregate_perms)
    have bits: "\<forall>n. bit ?P n =
        (\<exists>x\<in>set (Guild_Roles g). Role_ID x \<in> set (Member_Roles m) \<and> bit (Role_Permissions x) n)"
      by (auto simp: bit_or_over)
    from run p' bits False show ?thesis by auto
  qed
qed

theorem RequireBotMemberMW_combined_permissions_witness:
  "\<exists>r' w'. (\<forall>inner. RequireBotMemberMW example_env inner example_request example_world = inner r' w')
      \<and> ContextKeyBotPermissions (ctx r') = Some 28"
proof -
  have m: "GetBotMember example_env (Param_server example_request) = Inr example_member \<or>
      (\<exists>err. GetBotMember example_env (Param_server example_request) = Inl err \<and>
         GuildMember example_env (Param_server example_request) (Conf_BotID example_env)
           = Inr example_member)"
    by (simp add: example_env_def)
  have a: "ContextKeyCurrentGuild (ctx example_request) = Some 0"
    by (simp add: example_request_def)
  have g: "guild_at example_world 0 = Some example_guild"
    by (simp add: guild_at_def example_world_def)
  have v: "or_over (filter (\<lambda>x. Role_ID x \<in> set (Member_Roles example_member))
      (Guild_Roles example_guild)) = 28"
    by (simp add: or_over_def example_guild_def example_roles_def example_member_def)
  have ne: "Guild_Roles example_guild \<noteq> []"
    by (simp add: example_guild_def example_roles_def)
  from RequireBotMemberMW_combined_permissions [OF m a g] ne v
  show ?thesis by auto
qed

text \<open>
  Claim C7. The highest role stored by the aggregator is a function of the order of the
  organization's roles: among the matching roles \<open>ms\<close>, in that order, it is the role at
  the index \<open>i\<close> whose position is strictly greater than that of every matching role
  before it and not smaller than that of any matching role; so among roles of equal
  position the one seen first is chosen. With no matching role a nil role is stored.
\<close>

theorem RequireBotMemberMW_highest_role:
  assumes m: "GetBotMember e (Param_server r) = Inr m \<or>
      (\<exists>err. GetBotMember e (Param_server r) = Inl err \<and>
         GuildMember e (Param_server r) (Conf_BotID e) = Inr m)"
    and a: "ContextKeyCurrentGuild (ctx r) = Some a"
    and g: "guild_at w a = Some g"
    and ne: "Guild_Roles g \<noteq> []"
  shows "let ms = filter (\<lambda>x. Role_ID x \<in> set (Member_Roles m)) (Guild_Roles g)
         in \<exists>r' w' h.
              (\<forall>inner. RequireBotMemberMW e inner r w = inner r' w') \<and>
              ContextKeyHighestBotRole (ctx r') = Some h \<and>
              (if ms = [] then h = None
               else \<exists>i<length ms. h = Some (ms ! i) \<and>
                      (\<forall>j<i. Role_Position (ms ! j) < Role_Position (ms ! i)) \<and>
                      (\<forall>j<length ms. Role_Position (ms ! j) \<le> Role_Position (ms ! i)))"
proof -
  have f: "fst (fetch_bot_member e r w) = Inr m"
    using m by (auto simp: fetch_bot_member_fst)
  let ?ms = "filter (\<lambda>x. Role_ID x \<in> set (Member_Roles m)) (Guild_Roles g)"
  from RequireBotMemberMW_aggregates [OF f a g ne]
  obtain r' w' where run: "\<forall>inner. RequireBotMemberMW e inner r w = inner r' w'"
    and h: "ContextKeyHighestBotRole (ctx r') =
        Some (fst (aggregate (Guild_Roles g) (Member_Roles m) None 0))"
    by blast
  have h': "ContextKeyHighestBotRole (ctx r') = Some (fold pick ?ms None)"
    using h by (simp add: aggregate_highest)
  have sel: "if ?ms = [] then fold pick ?ms None = None
     else \<exists>i<length ?ms. fold pick ?ms None = Some (?ms ! i) \<and>
            (\<forall>j<i. Role_Position (?ms ! j) < Role_Position (?ms ! i)) \<and>
            (\<forall>j<length ?ms. Role_Position (?ms ! j) \<le> Role_Position (?ms ! i))"
    using fold_pick_first_max [of ?ms] by (cases "?ms = []") auto
  from run h' sel show ?thesis unfolding Let_def by blast
qed

theorem RequireBotMemberMW_highest_role_witness:
  "\<exists>r' w'. (\<forall>inner. RequireBotMemberMW example_env inner example_request example_world = inner r' w')
      \<and> ContextKeyHighestBotRole (ctx r') =
          Some (Some \<lparr>Role_ID = ''r2'', Role_Permissions = 4, Role_Position = 5\<rparr>)"
proof -
  have m: "GetBotMember example_env (Param_server example_request) = Inr example_member \<or>
      (\<exists>err. GetBotMember example_env (Param_server example_request) = Inl err \<and>
         GuildMember example_env (Param_server example_request) (Conf_BotID example_env)
           = Inr example_member)"
    by (simp add: example_env_def)
  have a: "ContextKeyCurrentGuild (ctx example_request) = Some 0"
    by (simp add: example_request_def)
  have g: "guild_at example_world 0 = Some example_guild"
    by (simp add: guild_at_def example_world_def)
  have ne: "Guild_Roles example_guild \<noteq> []"
    by (simp add: example_guild_def example_roles_def)
  define ms where
    "ms = filter (\<lambda>x. Role_ID x \<in> set (Member_Roles example_member)) (Guild_Roles example_guild)"
  have msv: "ms = [\<lparr>Role_ID = ''r1'', Role_Permissions = 8, Role_Position = 2\<rparr>,
         \<lparr>Role_ID = ''r2'', Role_Permissions = 4, Role_Position = 5\<rparr>,
         \<lparr>Role_ID = ''r3'', Role_Permissions = 16, Role_Position = 5\<rparr>]"
    by (simp add: ms_def example_guild_def example_roles_def example_member_def)
  have pos: "Role_Position (ms ! 0) = 2" "Role_Position (ms ! 1) = 5"
    "Role_Position (ms ! 2) = 5" "length ms = 3" "ms \<noteq> []"
    "ms ! 1 = \<lparr>Role_ID = ''r2'', Role_Permissions = 4, Role_Position = 5\<rparr>"
    by (simp_all add: msv)
  from RequireBotMemberMW_highest_role [OF m a g ne]
  obtain r' w' h where
    run: "\<forall>inner. RequireBotMemberMW example_env inner example_request example_world = inner r' w'"
    and h: "ContextKeyHighestBotRole (ctx r') = Some h"
    and sel: "if ms = [] then h = None
       else \<exists>i<length ms. h = Some (ms ! i) \<and>
              (\<forall>j<i. Role_Position (ms ! j) < Role_Position (ms ! i)) \<and>
              (\<forall>j<length ms. Role_Position (ms ! j) \<le> Role_Position (ms ! i))"
    unfolding Let_def ms_def by blast
  from sel pos(4,5) obtain i where i: "i < 3" "h = Some (ms ! i)"
    "\<forall>j<i. Role_Position (ms ! j) < Role_Position (ms ! i)"
    "\<forall>j<3. Role_Position (ms ! j) \<le> Role_Position (ms ! i)"
    by auto
  have le: "Role_Position (ms ! 1) \<le> Role_Position (ms ! i)"
    using i(4) by simp
  have lt: "1 < i \<Longrightarrow> Role_Position (ms ! 1) < Role_Position (ms ! i)"
    using i(3) by simp
  consider "i = 0" | "i = 1" | "i = 2" using i(1) by arith
  then have "i = 1"
  proof cases
    case 1
    with le pos show ?thesis by simp
  next
    case 2
    then show ?thesis .
  next
    case 3
    with lt pos show ?thesis by simp
  qed
  with run h i(2) pos(6) show ?thesis by auto
qed

section \<open>Properties of the full-record upgrade and of the guards\<close>

lemma RequireBotMemberMW_keeps_record:
  assumes a: "ContextKeyCurrentGuild (ctx r) = Some a"
    and g: "guild_at w a = Some g"
    and full: "Guild_OwnerID g \<noteq> []"
  shows "(\<exists>w'. \<forall>inner. RequireBotMemberMW e inner r w = Return () w') \<or>
     (\<exists>r' w'. (\<forall>inner. RequireBotMemberMW e inner r w = inner r' w') \<and> full_record r' w')"
proof -
  obtain res w5 where f: "fetch_bot_member e r w = (res, w5)"
    by (cases "fetch_bot_member e r w")
  have g5: "guild_at w5 a = Some g"
    using fetch_bot_member_keeps [OF f] g by simp
  show ?thesis
  proof (cases res)
    case (Inl err)
    with f have "\<forall>inner. RequireBotMemberMW e inner r w = Return ()
        (Redirect ''/?err=errFailedRetrievingBotMember'' StatusTemporaryRedirect
           (log_add LevelError ''Failed retrieving bot member'' (Some err) [] w5))"
      by (simp add: RequireBotMemberMW_def)
    then show ?thesis by blast
  next
    case (Inr m)
    obtain c1 w6 where s1: "SetContextTemplateData (ctx r) [(''BotMember'', TMember m)] w5 = (c1, w6)"
      by (cases "SetContextTemplateData (ctx r) [(''BotMember'', TMember m)] w5")
    have c1: "ContextKeyCurrentGuild c1 = Some a"
      using SetContextTemplateData_keeps(2) [OF s1] a by simp
    have g6: "guild_at w6 a = Some g"
      using SetContextTemplateData_keeps(1) [OF s1] g5 by simp
    let ?w7 = "log_add LevelInfo ''Checking if guild is available'' None [] w6"
    show ?thesis
    proof (cases "Guild_Roles g = []")
      case True
      have "\<forall>inner. RequireBotMemberMW e inner r w = inner r ?w7"
        using f Inr s1 c1 g6 True by (simp add: RequireBotMemberMW_def Let_def)
      moreover have "full_record r ?w7"
        using a g6 full by (simp add: full_record_def)
      ultimately show ?thesis by blast
    next
      case False
      obtain hi cp where ag: "aggregate (Guild_Roles g) (Member_Roles m) None 0 = (hi, cp)"
        by (cases "aggregate (Guild_Roles g) (Member_Roles m) None 0")
      define c4 where "c4 = c1\<lparr>ContextKeyBotMember := Some m, ContextKeyHighestBotRole := Some hi,
          ContextKeyBotPermissions := Some cp\<rparr>"
      define w8 where "w8 = log_add LevelInfo ''full guild available'' None [] ?w7"
      obtain c5 w9 where s2: "SetContextTemplateData c4
          [(''HighestRole'', TRole hi), (''BotPermissions'', TInt cp)] w8 = (c5, w9)"
        by (cases "SetContextTemplateData c4
            [(''HighestRole'', TRole hi), (''BotPermissions'', TInt cp)] w8")
      have run: "\<forall>inner. RequireBotMemberMW e inner r w = inner (r\<lparr>ctx := c5\<rparr>) w9"
        using f Inr s1 c1 g6 False ag s2
        by (simp add: RequireBotMemberMW_def Let_def c4_def w8_def)
      have "ContextKeyCurrentGuild c5 = Some a"
        using SetContextTemplateData_keeps(2) [OF s2] c1 by (simp add: c4_def)
      moreover have "guild_at w9 a = Some g"
        using SetContextTemplateData_keeps(1) [OF s2, of a] g6 by (simp add: w8_def)
      ultimately have "full_record (r\<lparr>ctx := c5\<rparr>) w9"
        using full by (simp add: full_record_def)
      with run show ?thesis by blast
    qed
  qed
qed

lemma RequireGuildChannelsMiddleware_keeps_record:
  assumes a: "ContextKeyCurrentGuild (ctx r) = Some a"
    and g: "guild_at w a = Some g"
    and full: "Guild_OwnerID g \<noteq> []"
  shows "(\<exists>w'. \<forall>inner. RequireGuildChannelsMiddleware e inner r w = Return () w') \<or>
     (\<exists>r' w'. (\<forall>inner. RequireGuildChannelsMiddleware e inner r w = inner r' w') \<and>
        full_record r' w')"
proof (cases "GetGuildChannels e (RedisClientFromContext (ctx r)) (Guild_ID g)")
  case (Inl err)
  with a g have "\<forall>inner. RequireGuildChannelsMiddleware e inner r w = Return ()
      (Redirect ''/?err=retrievingchannels'' StatusTemporaryRedirect
         (log_add LevelError ''Failed retrieving channels'' (Some err) []
            (call_add (CallGetGuildChannels (Guild_ID g)) w)))"
    by (simp add: RequireGuildChannelsMiddleware_def Let_def)
  then show ?thesis by blast
next
  case (Inr channels)
  let ?w1 = "call_add (CallGetGuildChannels (Guild_ID g)) w"
  let ?r' = "r\<lparr>ctx := (ctx r)\<lparr>ContextKeyGuildChannels := Some channels\<rparr>\<rparr>"
  let ?w' = "?w1\<lparr>guilds := (guilds ?w1)[a := g\<lparr>Guild_Channels := channels\<rparr>]\<rparr>"
  have len: "a < length (guilds w)"
    using g by (simp add: guild_at_def split: if_splits)
  have "\<forall>inner. RequireGuildChannelsMiddleware e inner r w = inner ?r' ?w'"
    using a g Inr by (simp add: RequireGuildChannelsMiddleware_def Let_def)
  moreover have "full_record ?r' ?w'"
    using a len full by (simp add: full_record_def guild_at_def)
  ultimately show ?thesis by blast
qed

text \<open>
  Claim C2. For a request whose active organization \<open>g\<close> (the object at the address \<open>a\<close>
  held by the context) has an owner id, \<^verbatim>\<open>RequireFullGuildMW\<close> runs the inner handler on
  the unchanged request and world: nothing is fetched and no field changes. For a stub
  (empty owner id) whose full record \<open>fg\<close> is fetched, the inner handler gets the same
  request, hence the same address; the one fetch is recorded; the object at \<open>a\<close> is \<open>g\<close>
  with exactly region, owner id and roles taken from \<open>fg\<close>; no object is added and no
  other object changes. When the fetch fails the request ends in a redirect and the heap
  is untouched. And once the record is full, the stages that may follow,
  \<^verbatim>\<open>RequireGuildChannelsMiddleware\<close> and \<^verbatim>\<open>RequireBotMemberMW\<close>, either end the request or
  run the inner handler on a context that still holds a full record.
\<close>

theorem RequireFullGuildMW_upgrade:
  assumes a: "ContextKeyCurrentGuild (ctx r) = Some a"
    and g: "guild_at w a = Some g"
  shows "(Guild_OwnerID g \<noteq> [] \<longrightarrow> (\<forall>inner. RequireFullGuildMW e inner r w = inner r w)) \<and>
         (Guild_OwnerID g = [] \<longrightarrow>
            (\<forall>fg. GetGuild e (RedisClientFromContext (ctx r)) (Guild_ID g) = Inr fg \<longrightarrow>
               (\<exists>w'. (\<forall>inner. RequireFullGuildMW e inner r w = inner r w') \<and>
                  calls w' = calls w @ [CallGetGuild (Guild_ID g)] \<and>
                  length (guilds w') = length (guilds w) \<and>
                  guild_at w' a = Some (g\<lparr>Guild_Region := Guild_Region fg,
                                          Guild_OwnerID := Guild_OwnerID fg,
                                          Guild_Roles := Guild_Roles fg\<rparr>) \<and>
                  (\<forall>b. b \<noteq> a \<longrightarrow> guild_at w' b = guild_at w b)))) \<and>
         (Guild_OwnerID g = [] \<longrightarrow>
            (\<forall>err. GetGuild e (RedisClientFromContext (ctx r)) (Guild_ID g) = Inl err \<longrightarrow>
               (\<exists>w'. (\<forall>inner. RequireFullGuildMW e inner r w = Return () w') \<and>
                  guilds w' = guilds w \<and>
                  Header_Get w' ''Location'' = Some ''/?err=errretrievingguild''))) \<and>
         (Guild_OwnerID g \<noteq> [] \<longrightarrow>
            ((\<exists>w'. \<forall>inner. RequireGuildChannelsMiddleware e inner r w = Return () w') \<or>
             (\<exists>r' w'. (\<forall>inner. RequireGuildChannelsMiddleware e inner r w = inner r' w') \<and>
                full_record r' w')) \<and>
            ((\<exists>w'. \<forall>inner. RequireBotMemberMW e inner r w = Return () w') \<or>
             (\<exists>r' w'. (\<forall>inner. RequireBotMemberMW e inner r w = inner r' w') \<and>
                full_record r' w')))"
proof (intro conjI impI allI)
  fix inner
  assume "Guild_OwnerID g \<noteq> []"
  then show "RequireFullGuildMW e inner r w = inner r w"
    using a g by (simp add: RequireFullGuildMW_def)
next
  fix fg
  assume stub: "Guild_OwnerID g = []"
    and fetch: "GetGuild e (RedisClientFromContext (ctx r)) (Guild_ID g) = Inr fg"
  let ?g' = "g\<lparr>Guild_Region := Guild_Region fg, Guild_OwnerID := Guild_OwnerID fg,
      Guild_Roles := Guild_Roles fg\<rparr>"
  let ?w1 = "call_add (CallGetGuild (Guild_ID g)) w"
  let ?w' = "?w1\<lparr>guilds := (guilds ?w1)[a := ?g']\<rparr>"
  have len: "a < length (guilds w)"
    using g by (simp add: guild_at_def split: if_splits)
  have run: "\<forall>inner. RequireFullGuildMW e inner r w = inner r ?w'"
    using a g stub fetch by (simp add: RequireFullGuildMW_def Let_def)
  have c: "calls ?w' = calls w @ [CallGetGuild (Guild_ID g)]"
    by (simp add: call_add_def)
  have l: "length (guilds ?w') = length (guilds w)"
    by simp
  have at: "guild_at ?w' a = Some ?g'"
    using len by (simp add: guild_at_def)
  have other: "\<forall>b. b \<noteq> a \<longrightarrow> guild_at ?w' b = guild_at w b"
    by (simp add: guild_at_def)
  from run c l at other
  show "\<exists>w'. (\<forall>inner. RequireFullGuildMW e inner r w = inner r w') \<and>
      calls w' = calls w @ [CallGetGuild (Guild_ID g)] \<and>
      length (guilds w') = length (guilds w) \<and>
      guild_at w' a = Some ?g' \<and> (\<forall>b. b \<noteq> a \<longrightarrow> guild_at w' b = guild_at w b)"
    by blast
next
  fix err
  assume stub: "Guild_OwnerID g = []"
    and fetch: "GetGuild e (RedisClientFromContext (ctx r)) (Guild_ID g) = Inl err"
  let ?w' = "Redirect ''/?err=errretrievingguild'' StatusTemporaryRedirect
      (log_add LevelError ''Failed retrieving guild'' (Some err) []
         (call_add (CallGetGuild (Guild_ID g)) w))"
  have "\<forall>inner. RequireFullGuildMW e inner r w = Return () ?w'"
    using a g stub fetch by (simp add: RequireFullGuildMW_def Let_def)
  moreover have "guilds ?w' = guilds w"
    by (simp add: Redirect_def WriteHeader_def Header_Set_def)
  moreover have "Header_Get ?w' ''Location'' = Some ''/?err=errretrievingguild''"
    by (simp add: Redirect_def WriteHeader_def Header_Set_def Header_Get_def)
  ultimately show "\<exists>w'. (\<forall>inner. RequireFullGuildMW e inner r w = Return () w') \<and>
      guilds w' = guilds w \<and> Header_Get w' ''Location'' = Some ''/?err=errretrievingguild''"
    by blast
next
  assume "Guild_OwnerID g \<noteq> []"
  then show "(\<exists>w'. \<forall>inner. RequireGuildChannelsMiddleware e inner r w = Return () w') \<or>
      (\<exists>r' w'. (\<forall>inner. RequireGuildChannelsMiddleware e inner r w = inner r' w') \<and>
         full_record r' w')"
    using RequireGuildChannelsMiddleware_keeps_record [OF a g] by blast
next
  assume "Guild_OwnerID g \<noteq> []"
  then show "(\<exists>w'. \<forall>inner. RequireBotMemberMW e inner r w = Return () w') \<or>
      (\<exists>r' w'. (\<forall>inner. RequireBotMemberMW e inner r w = inner r' w') \<and> full_record r' w')"
    using RequireBotMemberMW_keeps_record [OF a g] by blast
qed

theorem RequireFullGuildMW_upgrade_witness:
  "(\<forall>inner. RequireFullGuildMW example_env inner example_request example_world
       = inner example_request example_world) \<and>
   (\<exists>w'. (\<forall>inner. RequireFullGuildMW example_env inner stub_request example_world
              = inner stub_request w') \<and>
      calls w' = [CallGetGuild ''42''] \<and>
      guild_at w' 1 = Some example_guild \<and>
      guild_at w' 0 = Some example_guild)"
proof -
  have a0: "ContextKeyCurrentGuild (ctx example_request) = Some 0"
    by (simp add: example_request_def)
  have g0: "guild_at example_world 0 = Some example_guild"
    by (simp add: guild_at_def example_world_def)
  have full: "Guild_OwnerID example_guild \<noteq> []"
    by (simp add: example_guild_def)
  have a1: "ContextKeyCurrentGuild (ctx stub_request) = Some 1"
    by (simp add: stub_request_def)
  have g1: "guild_at example_world 1 = Some stub_guild"
    by (simp add: guild_at_def example_world_def)
  have stub: "Guild_OwnerID stub_guild = []"
    by (simp add: stub_guild_def)
  have fetch: "GetGuild example_env (RedisClientFromContext (ctx stub_request)) (Guild_ID stub_guild)
      = Inr example_guild"
    by (simp add: example_env_def stub_guild_def)
  have upd: "stub_guild\<lparr>Guild_Region := Guild_Region example_guild,
      Guild_OwnerID := Guild_OwnerID example_guild,
      Guild_Roles := Guild_Roles example_guild\<rparr> = example_guild"
    by (simp add: stub_guild_def example_guild_def)
  have c0: "calls example_world = []"
    by (simp add: example_world_def)
  have id: "Guild_ID stub_guild = ''42''"
    by (simp add: stub_guild_def)
  from RequireFullGuildMW_upgrade [OF a0 g0, of example_env] full
  have p1: "\<forall>inner. RequireFullGuildMW example_env inner example_request example_world
       = inner example_request example_world"
    by blast
  from RequireFullGuildMW_upgrade [OF a1 g1, of example_env] stub fetch
  obtain w' where "\<forall>inner. RequireFullGuildMW example_env inner stub_request example_world
              = inner stub_request w'"
    "calls w' = calls example_world @ [CallGetGuild (Guild_ID stub_guild)]"
    "guild_at w' 1 = Some (stub_guild\<lparr>Guild_Region := Guild_Region example_guild,
      Guild_OwnerID := Guild_OwnerID example_guild,
      Guild_Roles := Guild_Roles example_guild\<rparr>)"
    "\<forall>b. b \<noteq> 1 \<longrightarrow> guild_at w' b = guild_at example_world b"
    by blast
  then have "(\<forall>inner. RequireFullGuildMW example_env inner stub_request example_world
              = inner stub_request w') \<and>
      calls w' = [CallGetGuild ''42''] \<and>
      guild_at w' 1 = Some example_guild \<and>
      guild_at w' 0 = Some example_guild"
    using upd c0 id g0 by simp
  with p1 show ?thesis by blast
qed


text \<open>
  Claim C10. \<^verbatim>\<open>RequireGuildChannelsMiddleware\<close> and \<^verbatim>\<open>RequireFullGuildMW\<close> assert the type of
  the current-guild entry without a check: on a context with no such entry both panic
  with the failed assertion, whatever the inner handler is; on a context whose entry is
  an allocated guild neither panics (for an inner handler that does not); and behind
  \<^verbatim>\<open>RequireActiveServer\<close>, which passes a request on only when the entry is there, the
  panic cannot happen.
\<close>

theorem unchecked_guild_assertion:
  assumes wf: "\<forall>a. ContextKeyCurrentGuild (ctx r) = Some a \<longrightarrow> guild_at w a \<noteq> None"
    and inner: "\<forall>r' w'. \<not> is_panic (inner r' w')"
  shows "(ContextKeyCurrentGuild (ctx r) = None \<longrightarrow>
            RequireGuildChannelsMiddleware e inner r w = Panic assert_guild_panic w \<and>
            RequireFullGuildMW e inner r w = Panic assert_guild_panic w) \<and>
         (ContextKeyCurrentGuild (ctx r) \<noteq> None \<longrightarrow>
            \<not> is_panic (RequireGuildChannelsMiddleware e inner r w) \<and>
            \<not> is_panic (RequireFullGuildMW e inner r w)) \<and>
         \<not> is_panic (RequireActiveServer (RequireGuildChannelsMiddleware e inner) r w) \<and>
         \<not> is_panic (RequireActiveServer (RequireFullGuildMW e inner) r w)"
proof -
  have none: "ContextKeyCurrentGuild (ctx r) = None \<Longrightarrow>
      RequireGuildChannelsMiddleware e inner r w = Panic assert_guild_panic w \<and>
      RequireFullGuildMW e inner r w = Panic assert_guild_panic w"
    by (simp add: RequireGuildChannelsMiddleware_def RequireFullGuildMW_def)
  have some: "\<not> is_panic (RequireGuildChannelsMiddleware e inner r w) \<and>
      \<not> is_panic (RequireFullGuildMW e inner r w)"
    if "ContextKeyCurrentGuild (ctx r) \<noteq> None"
  proof -
    from that obtain a where a: "ContextKeyCurrentGuild (ctx r) = Some a" by auto
    with wf obtain g where g: "guild_at w a = Some g" by auto
    have "\<not> is_panic (RequireGuildChannelsMiddleware e inner r w)"
      using a g inner
      by (simp add: RequireGuildChannelsMiddleware_def Let_def split: sum.splits)
    moreover have "\<not> is_panic (RequireFullGuildMW e inner r w)"
      using a g inner
      by (simp add: RequireFullGuildMW_def Let_def split: sum.splits)
    ultimately show ?thesis by simp
  qed
  have guard: "\<not> is_panic (RequireActiveServer (RequireGuildChannelsMiddleware e inner) r w) \<and>
      \<not> is_panic (RequireActiveServer (RequireFullGuildMW e inner) r w)"
    using some by (cases "ContextKeyCurrentGuild (ctx r)") (simp_all add: RequireActiveServer_def)
  from none some guard show ?thesis by blast
qed

theorem unchecked_guild_assertion_witness:
  "RequireGuildChannelsMiddleware example_env noop_handler anonymous_request example_world
      = Panic assert_guild_panic example_world \<and>
   RequireFullGuildMW example_env noop_handler anonymous_request example_world
      = Panic assert_guild_panic example_world \<and>
   \<not> is_panic (RequireActiveServer (RequireFullGuildMW example_env noop_handler)
        anonymous_request example_world) \<and>
   \<not> is_panic (RequireFullGuildMW example_env noop_handler example_request example_world) \<and>
   \<not> is_panic (RequireGuildChannelsMiddleware example_env noop_handler example_request example_world)"
proof -
  have n: "ContextKeyCurrentGuild (ctx anonymous_request) = None"
    by (simp add: anonymous_request_def example_request_def empty_context_def)
  have wf0: "\<forall>a. ContextKeyCurrentGuild (ctx anonymous_request) = Some a \<longrightarrow>
      guild_at example_world a \<noteq> None"
    using n by simp
  have wf1: "\<forall>a. ContextKeyCurrentGuild (ctx example_request) = Some a \<longrightarrow>
      guild_at example_world a \<noteq> None"
    by (simp add: example_request_def guild_at_def example_world_def)
  have s: "ContextKeyCurrentGuild (ctx example_request) \<noteq> None"
    by (simp add: example_request_def)
  have inner: "\<forall>r' w'. \<not> is_panic (noop_handler r' w')"
    by (simp add: noop_handler_def)
  from unchecked_guild_assertion [OF wf0 inner, of example_env] n
    unchecked_guild_assertion [OF wf1 inner, of example_env] s
  show ?thesis by blast
qed


section \<open>Properties of the target-organization resolver\<close>

lemma find_user_guild_None:
  "find_user_guild gs guildID = None \<longleftrightarrow> (\<forall>g\<in>set gs. UserGuild_ID g \<noteq> guildID)"
  by (induction gs) auto

lemma ActiveServerMW_falls_back:
  assumes "ParseInt64 (Param_server r) = Inr n"
    and "ContextKeyGuilds (ctx r) = None \<or>
      (\<exists>gs. ContextKeyGuilds (ctx r) = Some gs \<and> (\<forall>g\<in>set gs. UserGuild_ID g \<noteq> Param_server r))"
  shows "\<exists>info. \<forall>inner. ActiveServerMW e inner r w = full_guild_fallback e inner info r w"
proof -
  from assms(2) consider (none) "ContextKeyGuilds (ctx r) = None"
    | (some) gs where "ContextKeyGuilds (ctx r) = Some gs"
        "find_user_guild gs (Param_server r) = None"
    by (auto simp: find_user_guild_None)
  then show ?thesis
  proof cases
    case none
    with assms(1) have "\<forall>inner. ActiveServerMW e inner r w =
        full_guild_fallback e inner ''No guilds, set full guild instead of userguild'' r w"
      by (simp add: ActiveServerMW_def Let_def)
    then show ?thesis ..
  next
    case some
    with assms(1) have "\<forall>inner. ActiveServerMW e inner r w =
        full_guild_fallback e inner ''Userguild not found'' r w"
      by (simp add: ActiveServerMW_def Let_def)
    then show ?thesis ..
  qed
qed

lemma full_guild_fallback_found:
  assumes "GetGuild e (RedisClientFromContext (ctx r)) (Param_server r) = Inr fg"
  shows "\<exists>c' w'. (\<forall>inner. full_guild_fallback e inner info r w = inner (r\<lparr>ctx := c'\<rparr>) w') \<and>
      ContextKeyCurrentGuild c' = Some (length (guilds w)) \<and>
      guild_at w' (length (guilds w)) = Some fg \<and>
      (\<forall>b. b < length (guilds w) \<longrightarrow> guild_at w' b = guild_at w b) \<and>
      calls w' = calls w @ [CallGetGuild (Param_server r)]"
proof -
  let ?w1 = "call_add (CallGetGuild (Param_server r)) w"
  let ?w2 = "?w1\<lparr>guilds := guilds ?w1 @ [fg]\<rparr>"
  let ?a = "length (guilds w)"
  obtain c1 w3 where s: "SetContextTemplateData (ctx r) [(''ActiveGuild'', TGuild ?a)] ?w2 = (c1, w3)"
    by (cases "SetContextTemplateData (ctx r) [(''ActiveGuild'', TGuild ?a)] ?w2")
  let ?w' = "log_add LevelInfo info None [] w3"
  have run: "\<forall>inner. full_guild_fallback e inner info r w
      = inner (r\<lparr>ctx := c1\<lparr>ContextKeyCurrentGuild := Some ?a\<rparr>\<rparr>) ?w'"
    using assms s by (simp add: full_guild_fallback_def setFullGuild_def Let_def)
  have at: "guild_at w3 b = guild_at ?w2 b" for b
    using SetContextTemplateData_keeps(1) [OF s] .
  have c3: "calls w3 = calls ?w2"
    using s by (auto simp: SetContextTemplateData_def split: option.splits)
  have at2: "guild_at ?w2 ?a = Some fg" "\<forall>b. b < ?a \<longrightarrow> guild_at ?w2 b = guild_at w b"
    by (simp_all add: guild_at_def nth_append)
  have "guild_at ?w' ?a = Some fg"
    using at [of ?a] at2(1) by simp
  moreover have "\<forall>b. b < ?a \<longrightarrow> guild_at ?w' b = guild_at w b"
    using at at2(2) by simp
  moreover have "calls ?w' = calls w @ [CallGetGuild (Param_server r)]"
    using c3 by (simp add: log_add_def call_add_def)
  ultimately show ?thesis using run
    by (intro exI[of _ "c1\<lparr>ContextKeyCurrentGuild := Some ?a\<rparr>"] exI[of _ ?w']) simp
qed

lemma full_guild_fallback_failed:
  assumes "GetGuild e (RedisClientFromContext (ctx r)) (Param_server r) = Inl err"
  shows "\<exists>w'. (\<forall>inner. full_guild_fallback e inner info r w = inner r w') \<and>
      guilds w' = guilds w \<and> tmpls w' = tmpls w \<and>
      resp_header w' = resp_header w \<and> resp_status w' = resp_status w \<and>
      resp_body w' = resp_body w \<and>
      logs w' = logs w @
        [\<lparr>Level = LevelError, Msg = ''Failed retrieving guild'', Err = Some err, LogFields = []\<rparr>,
         \<lparr>Level = LevelError, Msg = ''Failed setting full guild'', Err = Some err, LogFields = []\<rparr>,
         \<lparr>Level = LevelInfo, Msg = info, Err = None, LogFields = []\<rparr>]"
proof -
  let ?w' = "log_add LevelInfo info None []
      (log_add LevelError ''Failed setting full guild'' (Some err) []
         (log_add LevelError ''Failed retrieving guild'' (Some err) []
            (call_add (CallGetGuild (Param_server r)) w)))"
  have "\<forall>inner. full_guild_fallback e inner info r w = inner r ?w'"
    using assms by (simp add: full_guild_fallback_def setFullGuild_def Let_def)
  then show ?thesis
    by (intro exI[of _ ?w']) (simp add: log_add_def call_add_def)
qed

text \<open>
  Claim C5. For a numeric organization id that is not in the membership list of the
  context, or when the context has no membership list, \<^verbatim>\<open>ActiveServerMW\<close> fetches the
  full record. When the fetch gives \<open>fg\<close>, the inner handler runs on a context whose
  current-guild entry is the address of a new object holding \<open>fg\<close>. When the fetch fails
  with \<open>err\<close>, the inner handler still runs, on the request as it came in (its context
  gets no current-guild entry), the heap and the response status are untouched, and the
  failure is logged.
\<close>

theorem ActiveServerMW_fallback:
  assumes num: "ParseInt64 (Param_server r) = Inr n"
    and absent: "ContextKeyGuilds (ctx r) = None \<or>
      (\<exists>gs. ContextKeyGuilds (ctx r) = Some gs \<and> (\<forall>g\<in>set gs. UserGuild_ID g \<noteq> Param_server r))"
  shows "(\<forall>fg. GetGuild e (RedisClientFromContext (ctx r)) (Param_server r) = Inr fg \<longrightarrow>
            (\<exists>c' w'. (\<forall>inner. ActiveServerMW e inner r w = inner (r\<lparr>ctx := c'\<rparr>) w') \<and>
               ContextKeyCurrentGuild c' = Some (length (guilds w)) \<and>
               guild_at w' (length (guilds w)) = Some fg \<and>
               calls w' = calls w @ [CallGetGuild (Param_server r)])) \<and>
         (\<forall>err. GetGuild e (RedisClientFromContext (ctx r)) (Param_server r) = Inl err \<longrightarrow>
            (\<exists>w'. (\<forall>inner. ActiveServerMW e inner r w = inner r w') \<and>
               guilds w' = guilds w \<and> resp_status w' = resp_status w \<and>
               (\<exists>info. logs w' = logs w @
                  [\<lparr>Level = LevelError, Msg = ''Failed retrieving guild'', Err = Some err, LogFields = []\<rparr>,
                   \<lparr>Level = LevelError, Msg = ''Failed setting full guild'', Err = Some err, LogFields = []\<rparr>,
                   \<lparr>Level = LevelInfo, Msg = info, Err = None, LogFields = []\<rparr>])))"
proof (intro conjI allI impI)
  fix fg
  assume f: "GetGuild e (RedisClientFromContext (ctx r)) (Param_server r) = Inr fg"
  from ActiveServerMW_falls_back [OF num absent]
  obtain info where fb: "\<forall>inner. ActiveServerMW e inner r w = full_guild_fallback e inner info r w"
    by blast
  from full_guild_fallback_found [OF f, of info w] fb
  show "\<exists>c' w'. (\<forall>inner. ActiveServerMW e inner r w = inner (r\<lparr>ctx := c'\<rparr>) w') \<and>
      ContextKeyCurrentGuild c' = Some (length (guilds w)) \<and>
      guild_at w' (length (guilds w)) = Some fg \<and>
      calls w' = calls w @ [CallGetGuild (Param_server r)]"
    by auto
next
  fix err
  assume f: "GetGuild e (RedisClientFromContext (ctx r)) (Param_server r) = Inl err"
  from ActiveServerMW_falls_back [OF num absent]
  obtain info where fb: "\<forall>inner. ActiveServerMW e inner r w = full_guild_fallback e inner info r w"
    by blast
  from full_guild_fallback_failed [OF f, of info w] fb
  show "\<exists>w'. (\<forall>inner. ActiveServerMW e inner r w = inner r w') \<and>
      guilds w' = guilds w \<and> resp_status w' = resp_status w \<and>
      (\<exists>info. logs w' = logs w @
        [\<lparr>Level = LevelError, Msg = ''Failed retrieving guild'', Err = Some err, LogFields = []\<rparr>,
         \<lparr>Level = LevelError, Msg = ''Failed setting full guild'', Err = Some err, LogFields = []\<rparr>,
         \<lparr>Level = LevelInfo, Msg = info, Err = None, LogFields = []\<rparr>])"
    by auto
qed

lemma ParseInt64_42: "ParseInt64 ''42'' = Inr 42"
  by (simp add: ParseInt64_def is_digit_def)

lemma ParseInt64_77: "ParseInt64 ''77'' = Inr 77"
  by (simp add: ParseInt64_def is_digit_def)

lemma ParseInt64_examples:
  "ParseInt64 ''-9223372036854775808'' = Inr (- 9223372036854775808)"
  "ParseInt64 ''9223372036854775808'' = Inl (OtherError ''value out of range'')"
  "ParseInt64 ''12a'' = Inl (OtherError ''invalid syntax'')"
  "ParseInt64 ''+'' = Inl (OtherError ''invalid syntax'')"
  "ParseInt64 [] = Inl (OtherError ''invalid syntax'')"
  by (simp_all add: ParseInt64_def is_digit_def)

theorem ActiveServerMW_fallback_witness:
  "(\<exists>c' w'. (\<forall>inner. ActiveServerMW example_env inner anonymous_request example_world
                = inner (anonymous_request\<lparr>ctx := c'\<rparr>) w') \<and>
      ContextKeyCurrentGuild c' = Some 2 \<and> guild_at w' 2 = Some example_guild) \<and>
   (\<exists>w'. (\<forall>inner. ActiveServerMW example_env inner unknown_request example_world
             = inner unknown_request w') \<and> guilds w' = guilds example_world) \<and>
   ContextKeyCurrentGuild (ctx unknown_request) = None"
proof -
  have n1: "ParseInt64 (Param_server anonymous_request) = Inr 42"
    by (simp add: anonymous_request_def example_request_def ParseInt64_42)
  have n2: "ParseInt64 (Param_server unknown_request) = Inr 77"
    by (simp add: unknown_request_def ParseInt64_77)
  have a1: "ContextKeyGuilds (ctx anonymous_request) = None \<or>
      (\<exists>gs. ContextKeyGuilds (ctx anonymous_request) = Some gs \<and>
         (\<forall>g\<in>set gs. UserGuild_ID g \<noteq> Param_server anonymous_request))"
    by (simp add: anonymous_request_def empty_context_def)
  have a2: "ContextKeyGuilds (ctx unknown_request) = None \<or>
      (\<exists>gs. ContextKeyGuilds (ctx unknown_request) = Some gs \<and>
         (\<forall>g\<in>set gs. UserGuild_ID g \<noteq> Param_server unknown_request))"
    by (simp add: unknown_request_def anonymous_request_def empty_context_def)
  have f1: "GetGuild example_env (RedisClientFromContext (ctx anonymous_request))
      (Param_server anonymous_request) = Inr example_guild"
    by (simp add: example_env_def anonymous_request_def example_request_def)
  have f2: "GetGuild example_env (RedisClientFromContext (ctx unknown_request))
      (Param_server unknown_request) = Inl (OtherError ''unknown guild'')"
    by (simp add: example_env_def unknown_request_def)
  have len: "length (guilds example_world) = 2"
    by (simp add: example_world_def)
  have none: "ContextKeyCurrentGuild (ctx unknown_request) = None"
    by (simp add: unknown_request_def anonymous_request_def empty_context_def)
  from ActiveServerMW_fallback [OF n1 a1, of example_env example_world, THEN conjunct1,
      rule_format, OF f1]
  obtain c' w' where "\<forall>inner. ActiveServerMW example_env inner anonymous_request example_world
                = inner (anonymous_request\<lparr>ctx := c'\<rparr>) w'"
      "ContextKeyCurrentGuild c' = Some (length (guilds example_world))"
      "guild_at w' (length (guilds example_world)) = Some example_guild"
    by blast
  then have p1: "\<exists>c' w'. (\<forall>inner. ActiveServerMW example_env inner anonymous_request example_world
                = inner (anonymous_request\<lparr>ctx := c'\<rparr>) w') \<and>
      ContextKeyCurrentGuild c' = Some 2 \<and> guild_at w' 2 = Some example_guild"
    unfolding len by blast
  from ActiveServerMW_fallback [OF n2 a2, of example_env example_world, THEN conjunct2,
      rule_format, OF f2]
  have p2: "\<exists>w'. (\<forall>inner. ActiveServerMW example_env inner unknown_request example_world
             = inner unknown_request w') \<and> guilds w' = guilds example_world"
    by blast
  from p1 p2 none show ?thesis by blast
qed

section \<open>Properties of the header middleware\<close>

lemma Header_Get_Set: "Header_Get (Header_Set k v w) k = Some v"
  by (simp add: Header_Get_def Header_Set_def)

text \<open>
  Claim C8, as amended. While the process accepts requests, \<^verbatim>\<open>MiscMiddleware\<close> runs the
  inner handler on a response that carries \<^verbatim>\<open>Strict-Transport-Security: max-age=31536000\<close>,
  for every request. While it does not accept requests, the inner handler is not run and
  the early-exit body is written on a response whose headers are left as they were: the
  header is not added there.
\<close>

theorem MiscMiddleware_header:
  \<open>(IsAcceptingRequests e \<longrightarrow>
      (\<exists>w'. (\<forall>inner. MiscMiddleware e inner r w = inner r w') \<and>
         Header_Get w' ''Strict-Transport-Security'' = Some ''max-age=31536000'')) \<and>
   (\<not> IsAcceptingRequests e \<longrightarrow>
      (\<exists>w'. (\<forall>inner. MiscMiddleware e inner r w = Return () w') \<and>
         resp_header w' = resp_header w \<and>
         resp_body w' = resp_body w @ [WriteRaw ''{"error":"Shutting down, try again in a minute"}'']))\<close>
proof (intro conjI impI)
  assume acc: "IsAcceptingRequests e"
  let ?w' = "Header_Set ''Strict-Transport-Security'' ''max-age=31536000'' w"
  have "\<forall>inner. MiscMiddleware e inner r w = inner r ?w'"
    using acc by (simp add: MiscMiddleware_def)
  moreover have "Header_Get ?w' ''Strict-Transport-Security'' = Some ''max-age=31536000''"
    by (rule Header_Get_Set)
  ultimately show "\<exists>w'. (\<forall>inner. MiscMiddleware e inner r w = inner r w') \<and>
      Header_Get w' ''Strict-Transport-Security'' = Some ''max-age=31536000''"
    by blast
next
  assume "\<not> IsAcceptingRequests e"
  then show \<open>\<exists>w'. (\<forall>inner. MiscMiddleware e inner r w = Return () w') \<and>
      resp_header w' = resp_header w \<and>
      resp_body w' = resp_body w @ [WriteRaw ''{"error":"Shutting down, try again in a minute"}'']\<close>
    by (simp add: MiscMiddleware_def Write_def WriteHeader_def)
qed

theorem MiscMiddleware_header_witness:
  "(\<exists>w'. (\<forall>inner. MiscMiddleware example_env inner example_request example_world
              = inner example_request w') \<and>
      Header_Get w' ''Strict-Transport-Security'' = Some ''max-age=31536000'') \<and>
   (\<exists>w'. (\<forall>inner. MiscMiddleware shutdown_env inner example_request example_world = Return () w') \<and>
      resp_header w' = [])"
proof -
  have acc: "IsAcceptingRequests example_env" "\<not> IsAcceptingRequests shutdown_env"
    by (simp_all add: example_env_def shutdown_env_def)
  have h: "resp_header example_world = []"
    by (simp add: example_world_def)
  from MiscMiddleware_header [of example_env example_request example_world] acc(1)
  have p1: "\<exists>w'. (\<forall>inner. MiscMiddleware example_env inner example_request example_world
              = inner example_request w') \<and>
      Header_Get w' ''Strict-Transport-Security'' = Some ''max-age=31536000''"
    by blast
  from MiscMiddleware_header [of shutdown_env example_request example_world] acc(2)
  obtain w' where "\<forall>inner. MiscMiddleware shutdown_env inner example_request example_world = Return () w'"
    "resp_header w' = resp_header example_world"
    by blast
  with h have p2: "\<exists>w'. (\<forall>inner. MiscMiddleware shutdown_env inner example_request example_world = Return () w') \<and>
      resp_header w' = []"
    by auto
  from p1 p2 show ?thesis by blast
qed

theorem MiscMiddleware_shutdown_counterexample:
  "Header_Get (outcome_world (MiscMiddleware shutdown_env noop_handler example_request example_world))
     ''Strict-Transport-Security'' = None \<and>
   resp_status (outcome_world (MiscMiddleware shutdown_env noop_handler example_request example_world))
     = Some 200"
  by (simp add: MiscMiddleware_def shutdown_env_def example_env_def Write_def WriteHeader_def
      Header_Get_def example_world_def)

section \<open>Properties of the controller adapter\<close>

lemma tmpl_at_log_add [simp]: "tmpl_at (log_add lv m er fs w) a = tmpl_at w a"
  by (simp add: tmpl_at_def log_add_def)

lemma logs_log_add [simp]:
  "logs (log_add lv m er fs w) = logs w @ [\<lparr>Level = lv, Msg = m, Err = er, LogFields = fs\<rparr>]"
  by (simp add: log_add_def)

lemma calls_log_add [simp]: "calls (log_add lv m er fs w) = calls w"
  by (simp add: log_add_def)

text \<open>
  Claim C6. For every non-nil error \<open>er\<close> given to \<^verbatim>\<open>checkControllerError\<close> with render
  data \<open>t\<close>: exactly one alert is appended, of the error style; its text is the message
  of \<open>er\<close>, unchanged, when \<open>er\<close> is a \<^verbatim>\<open>PublicError\<close>, and the fixed text
  \<^verbatim>\<open>An error occured... Contact support.\<close> otherwise; and one log entry is written, which
  carries the id of the active organization as field \<^verbatim>\<open>guild\<close> when there is one.
\<close>

theorem checkControllerError_alert_and_log:
  assumes t: "tmpl_at w data = Some t"
    and gp: "guild = None \<or> (\<exists>a. guild = Some a \<and> guild_at w a \<noteq> None)"
  shows "\<exists>w'. checkControllerError guild data (Some er) w = Return () w' \<and>
      tmpl_at w' data = Some (t\<lparr>Alerts := Alerts t @
         [\<lparr>Style = AlertDanger,
           Message = (case er of PublicError msg \<Rightarrow> msg
                      | OtherError txt \<Rightarrow> ''An error occured... Contact support.'')\<rparr>]\<rparr>) \<and>
      logs w' = logs w @
         [\<lparr>Level = LevelError, Msg = ''Web handler reported error'', Err = Some er,
           LogFields = (case guild of None \<Rightarrow> []
                        | Some a \<Rightarrow> (case guild_at w a of None \<Rightarrow> []
                                      | Some g \<Rightarrow> [(''guild'', Guild_ID g)]))\<rparr>]"
proof -
  let ?al = "\<lparr>Style = AlertDanger,
      Message = (case er of PublicError msg \<Rightarrow> msg
                 | OtherError txt \<Rightarrow> ''An error occured... Contact support.'')\<rparr>"
  let ?w1 = "w\<lparr>tmpls := (tmpls w)[data := t\<lparr>Alerts := Alerts t @ [?al]\<rparr>]\<rparr>"
  have len: "data < length (tmpls w)"
    using t by (simp add: tmpl_at_def split: if_splits)
  have al: "(case er of PublicError msg \<Rightarrow> ErrorAlert [Error er]
             | OtherError txt \<Rightarrow> ErrorAlert [''An error occured... Contact support.'']) = ?al"
    by (cases er) (simp_all add: ErrorAlert_def)
  have add: "AddAlerts data
      [case er of PublicError msg \<Rightarrow> ErrorAlert [Error er]
       | OtherError txt \<Rightarrow> ErrorAlert [''An error occured... Contact support.'']] w = Some ?w1"
    unfolding al using t by (simp add: AddAlerts_def)
  have g1: "guild_at ?w1 a = guild_at w a" for a
    by (simp add: guild_at_def)
  have t1: "tmpl_at ?w1 data = Some (t\<lparr>Alerts := Alerts t @ [?al]\<rparr>)"
    using len by (simp add: tmpl_at_def)
  from gp show ?thesis
  proof
    assume n: "guild = None"
    have "checkControllerError guild data (Some er) w =
        Return () (log_add LevelError ''Web handler reported error'' (Some er) [] ?w1)"
      using n add by (simp add: checkControllerError_def)
    then show ?thesis using t1 n
      by simp
  next
    assume "\<exists>a. guild = Some a \<and> guild_at w a \<noteq> None"
    then obtain a g where s: "guild = Some a" "guild_at w a = Some g" by auto
    have "checkControllerError guild data (Some er) w =
        Return () (log_add LevelError ''Web handler reported error'' (Some er)
           [(''guild'', Guild_ID g)] ?w1)"
      using s add g1 [of a] by (simp add: checkControllerError_def)
    then show ?thesis using t1 s
      by simp
  qed
qed

theorem checkControllerError_alert_and_log_witness:
  "\<exists>w'. checkControllerError (Some 0) 0 (Some (NewPublicError [''quota exceeded''])) example_world
           = Return () w' \<and>
      tmpl_at w' 0 = Some \<lparr>Fields = [], Alerts = [\<lparr>Style = AlertDanger, Message = ''quota exceeded''\<rparr>]\<rparr> \<and>
      logs w' = [\<lparr>Level = LevelError, Msg = ''Web handler reported error'',
                  Err = Some (PublicError ''quota exceeded''), LogFields = [(''guild'', ''42'')]\<rparr>]"
proof -
  have t: "tmpl_at example_world 0 = Some \<lparr>Fields = [], Alerts = []\<rparr>"
    by (simp add: tmpl_at_def example_world_def)
  have g: "guild_at example_world 0 = Some example_guild"
    by (simp add: guild_at_def example_world_def)
  have gp: "Some (0::nat) = None \<or> (\<exists>a. Some (0::nat) = Some a \<and> guild_at example_world a \<noteq> None)"
    using g by simp
  have l: "logs example_world = []" "Guild_ID example_guild = ''42''"
    by (simp_all add: example_world_def example_guild_def)
  from checkControllerError_alert_and_log [OF t gp, of "NewPublicError [''quota exceeded'']"]
  show ?thesis
    using g l by (simp add: NewPublicError_def)
qed

section \<open>Properties of the JSON wrapper\<close>

lemma assert_error_never_nil: "assert_error out \<noteq> (None, True)"
  by (cases out) simp_all

text \<open>
  Claim C3, at the input where the code departs from it. A handler that returns the nil
  interface (a success with nothing to report, the nil error) makes \<^verbatim>\<open>APIHandler\<close> write
  nothing at all: no \<^verbatim>\<open>{"ok": true}\<close>, no status. The branch of the source that would
  write \<^verbatim>\<open>{"ok": true}\<close> is taken only when the assertion to \<^verbatim>\<open>error\<close> succeeds with a nil
  value, which \<open>assert_error_never_nil\<close> shows impossible.
\<close>

theorem APIHandler_nil_result_writes_nothing:
  "APIHandler nil_handler r w = Return () w"
  by (simp add: APIHandler_def nil_handler_def)

lemma APIHandler_never_ok_true:
  assumes "inner r w = Return out w1"
  shows "\<exists>w'. APIHandler inner r w = Return () w' \<and>
     resp_body w' = (case out of
         INil \<Rightarrow> resp_body w1
       | IData v \<Rightarrow> resp_body w1 @ [WriteJson (IData v)]
       | IError (PublicError msg) \<Rightarrow>
           resp_body w1 @ [WriteJson (IData (JObject [(''ok'', JBool False), (''error'', JString msg)]))]
       | IError (OtherError txt) \<Rightarrow> resp_body w1 @ [WriteJson (IError (OtherError txt))])"
  using assms
  by (cases out; simp add: APIHandler_def Write_def WriteHeader_def log_add_def
        split: go_error.splits)

lemma APIHandler_internal_error_body:
  "resp_body (outcome_world (APIHandler failing_handler example_request example_world))
     = [WriteJson (IError (OtherError ''connection refused''))]"
  by (simp add: APIHandler_def failing_handler_def Write_def WriteHeader_def log_add_def
      example_world_def)

section \<open>Properties of the form pipeline\<close>

lemma AddAlerts_at:
  assumes "tmpl_at w ta = Some t"
  shows "\<exists>w'. AddAlerts ta als w = Some w' \<and> tmpl_at w' ta = Some (t\<lparr>Alerts := Alerts t @ als\<rparr>) \<and>
     calls w' = calls w \<and> guilds w' = guilds w"
proof -
  have "ta < length (tmpls w)"
    using assms by (simp add: tmpl_at_def split: if_splits)
  then show ?thesis
    using assms by (simp add: AddAlerts_def tmpl_at_def)
qed

lemma FormParserMW_decode_failed:
  assumes p: "parsed_body e r = Inr values"
    and c: "GetBaseCPContextData (ctx r) = Some (client, g, ta)"
    and t: "tmpl_at w ta = Some t"
    and d: "Decode e dst values = (decoded, Some er)"
  shows "\<exists>w'. (\<forall>inner. FormParserMW e inner dst r w =
            inner (r\<lparr>ctx := (ctx r)\<lparr>ContextKeyParsedForm := Some decoded,
                                     ContextKeyFormOk := Some False\<rparr>\<rparr>) w') \<and>
      tmpl_at w' ta = Some (t\<lparr>Alerts := Alerts t @ [ErrorAlert [''Failed parsing form'']]\<rparr>) \<and>
      calls w' = calls w"
proof -
  let ?w0 = "log_add LevelError ''Failed decoding form'' (Some er) [] w"
  have "tmpl_at ?w0 ta = Some t" using t by simp
  from AddAlerts_at [OF this, of "[ErrorAlert [''Failed parsing form'']]"]
  obtain w' where w': "AddAlerts ta [ErrorAlert [''Failed parsing form'']] ?w0 = Some w'"
    "tmpl_at w' ta = Some (t\<lparr>Alerts := Alerts t @ [ErrorAlert [''Failed parsing form'']]\<rparr>)"
    "calls w' = calls ?w0"
    by blast
  have "\<forall>inner. FormParserMW e inner dst r w =
      inner (r\<lparr>ctx := (ctx r)\<lparr>ContextKeyParsedForm := Some decoded,
                               ContextKeyFormOk := Some False\<rparr>\<rparr>) w'"
    using p c d w'(1) by (simp add: FormParserMW_def parsed_body_def)
  with w'(2,3) show ?thesis by (intro exI[of _ w']) simp
qed

lemma FormParserMW_decoded:
  assumes p: "parsed_body e r = Inr values"
    and c: "GetBaseCPContextData (ctx r) = Some (client, g, ta)"
    and t: "tmpl_at w ta = Some t"
    and d: "Decode e dst values = (decoded, None)"
  shows "\<exists>w'. \<forall>inner. FormParserMW e inner dst r w =
            inner (r\<lparr>ctx := (ctx r)\<lparr>ContextKeyParsedForm := Some decoded,
                ContextKeyFormOk := Some (fst (ValidateForm e (guild_at w g) decoded))\<rparr>\<rparr>) w'"
proof -
  obtain ok als where v: "ValidateForm e (guild_at w g) decoded = (ok, als)"
    by (cases "ValidateForm e (guild_at w g) decoded")
  from AddAlerts_at [OF t, of als]
  obtain w' where w': "AddAlerts ta als w = Some w'" by blast
  have "\<forall>inner. FormParserMW e inner dst r w =
      inner (r\<lparr>ctx := (ctx r)\<lparr>ContextKeyParsedForm := Some decoded,
                               ContextKeyFormOk := Some ok\<rparr>\<rparr>) w'"
    using p c d v w' by (simp add: FormParserMW_def parsed_body_def)
  with v show ?thesis by (intro exI[of _ w']) simp
qed

lemma persisting_handlers_skip:
  assumes ok: "ContextKeyFormOk (ctx r) = Some False"
    and c: "GetBaseCPContextData (ctx r) \<noteq> None"
  shows "ControllerPost_body mainHandler extra logMsg r w = deferred_opt extra r (Return () w)"
    and "ContextKeyParsedForm (ctx r) \<noteq> None \<Longrightarrow>
      SimpleConfigSaver_body e t extra r w = deferred_opt extra r (Return () w)"
  using ok c
  by (auto simp: ControllerPost_body_def SimpleConfigSaver_body_def)

text \<open>
  Claim C4. Let the body of the request parse, and let the context hold the active
  organization and the render data \<open>t\<close>. When decoding into the schema fails,
  \<^verbatim>\<open>FormParserMW\<close> still runs the inner handler, on a context with the decoded value and
  the flag \<open>False\<close>, after appending the alert \<^verbatim>\<open>Failed parsing form\<close> to the render data
  and without any external call. When decoding succeeds, the inner handler gets the
  decoded value and the verdict of the validation as flag, so \<open>True\<close> when validation
  passes. And on every request whose stored flag is \<open>False\<close>, the handlers of
  \<^verbatim>\<open>SimpleConfigSaverHandler\<close> and \<^verbatim>\<open>ControllerPostHandler\<close> do nothing but run the extra
  handler, if any: nothing is saved and the main handler is not called.
\<close>

theorem FormParserMW_outcome_flag:
  assumes p: "parsed_body e r = Inr values"
    and c: "GetBaseCPContextData (ctx r) = Some (client, g, ta)"
    and t: "tmpl_at w ta = Some t"
    and d: "Decode e dst values = (decoded, derr)"
  shows "(derr \<noteq> None \<longrightarrow>
            (\<exists>w'. (\<forall>inner. FormParserMW e inner dst r w =
                     inner (r\<lparr>ctx := (ctx r)\<lparr>ContextKeyParsedForm := Some decoded,
                                              ContextKeyFormOk := Some False\<rparr>\<rparr>) w') \<and>
               tmpl_at w' ta =
                 Some (t\<lparr>Alerts := Alerts t @
                          [\<lparr>Style = AlertDanger, Message = ''Failed parsing form''\<rparr>]\<rparr>) \<and>
               calls w' = calls w)) \<and>
         (derr = None \<longrightarrow>
            (\<exists>w'. \<forall>inner. FormParserMW e inner dst r w =
                     inner (r\<lparr>ctx := (ctx r)\<lparr>ContextKeyParsedForm := Some decoded,
                        ContextKeyFormOk := Some (fst (ValidateForm e (guild_at w g) decoded))\<rparr>\<rparr>) w')) \<and>
         (\<forall>r0 w0 sv mainHandler extra logMsg.
            ContextKeyFormOk (ctx r0) = Some False \<and> GetBaseCPContextData (ctx r0) \<noteq> None \<and>
            ContextKeyParsedForm (ctx r0) \<noteq> None \<longrightarrow>
              SimpleConfigSaver_body e sv extra r0 w0 = deferred_opt extra r0 (Return () w0) \<and>
              ControllerPost_body mainHandler extra logMsg r0 w0
                = deferred_opt extra r0 (Return () w0))"
proof (intro conjI impI allI)
  assume "derr \<noteq> None"
  then obtain er where "derr = Some er" by auto
  with d have d': "Decode e dst values = (decoded, Some er)" by simp
  from FormParserMW_decode_failed [OF p c t d']
  show "\<exists>w'. (\<forall>inner. FormParserMW e inner dst r w =
                     inner (r\<lparr>ctx := (ctx r)\<lparr>ContextKeyParsedForm := Some decoded,
                                              ContextKeyFormOk := Some False\<rparr>\<rparr>) w') \<and>
               tmpl_at w' ta =
                 Some (t\<lparr>Alerts := Alerts t @
                          [\<lparr>Style = AlertDanger, Message = ''Failed parsing form''\<rparr>]\<rparr>) \<and>
               calls w' = calls w"
    by (simp add: ErrorAlert_def)
next
  assume "derr = None"
  with d have d': "Decode e dst values = (decoded, None)" by simp
  from FormParserMW_decoded [OF p c t d']
  show "\<exists>w'. \<forall>inner. FormParserMW e inner dst r w =
                     inner (r\<lparr>ctx := (ctx r)\<lparr>ContextKeyParsedForm := Some decoded,
                        ContextKeyFormOk := Some (fst (ValidateForm e (guild_at w g) decoded))\<rparr>\<rparr>) w'"
    .
next
  fix r0 :: request and w0 :: world and sv :: SimpleConfigSaver
    and mainHandler :: ControllerHandlerFunc and extra :: "handler option" and logMsg :: string
  assume a: "ContextKeyFormOk (ctx r0) = Some False \<and> GetBaseCPContextData (ctx r0) \<noteq> None \<and>
            ContextKeyParsedForm (ctx r0) \<noteq> None"
  then show "SimpleConfigSaver_body e sv extra r0 w0 = deferred_opt extra r0 (Return () w0)"
    using persisting_handlers_skip(2) [of r0 e sv extra w0] by blast
next
  fix r0 :: request and w0 :: world and sv :: SimpleConfigSaver
    and mainHandler :: ControllerHandlerFunc and extra :: "handler option" and logMsg :: string
  assume a: "ContextKeyFormOk (ctx r0) = Some False \<and> GetBaseCPContextData (ctx r0) \<noteq> None \<and>
            ContextKeyParsedForm (ctx r0) \<noteq> None"
  then show "ControllerPost_body mainHandler extra logMsg r0 w0
                = deferred_opt extra r0 (Return () w0)"
    using persisting_handlers_skip(1) [of r0 mainHandler extra logMsg w0] by blast
qed


theorem FormParserMW_outcome_flag_witness:
  "(\<exists>w'. (\<forall>inner. FormParserMW example_env inner ''strict'' example_request example_world =
              inner rejected_request w') \<and>
      tmpl_at w' 0 = Some \<lparr>Fields = [],
                            Alerts = [\<lparr>Style = AlertDanger, Message = ''Failed parsing form''\<rparr>]\<rparr> \<and>
      calls w' = []) \<and>
   SimpleConfigSaver_body example_env example_saver None rejected_request example_world
     = Return () example_world \<and>
   ControllerPost_body failing_main None ''changed'' rejected_request example_world
     = Return () example_world"
proof -
  have p: "parsed_body example_env example_request = Inr [(''name'', ''hello'')]"
    by (simp add: parsed_body_def example_env_def example_request_def)
  have c: "GetBaseCPContextData (ctx example_request) = Some (None, 0, 0)"
    by (simp add: GetBaseCPContextData_def RedisClientFromContext_def example_request_def
        empty_context_def)
  have t: "tmpl_at example_world 0 = Some \<lparr>Fields = [], Alerts = []\<rparr>"
    by (simp add: tmpl_at_def example_world_def)
  have d: "Decode example_env ''strict'' [(''name'', ''hello'')]
      = ([(''name'', ''hello'')], Some (OtherError ''schema mismatch''))"
    by (simp add: example_env_def)
  have rr: "example_request\<lparr>ctx := (ctx example_request)
      \<lparr>ContextKeyParsedForm := Some [(''name'', ''hello'')], ContextKeyFormOk := Some False\<rparr>\<rparr>
      = rejected_request"
    by (simp add: rejected_request_def)
  have c0: "calls example_world = []"
    by (simp add: example_world_def)
  have rej: "ContextKeyFormOk (ctx rejected_request) = Some False \<and>
      GetBaseCPContextData (ctx rejected_request) \<noteq> None \<and>
      ContextKeyParsedForm (ctx rejected_request) \<noteq> None"
    by (simp add: rejected_request_def GetBaseCPContextData_def example_request_def)
  note T = FormParserMW_outcome_flag [OF p c t d]
  from T [THEN conjunct1] 
  have p1: "\<exists>w'. (\<forall>inner. FormParserMW example_env inner ''strict'' example_request example_world =
              inner rejected_request w') \<and>
      tmpl_at w' 0 = Some \<lparr>Fields = [],
                            Alerts = [\<lparr>Style = AlertDanger, Message = ''Failed parsing form''\<rparr>]\<rparr> \<and>
      calls w' = []"
    unfolding rr c0 by simp
  from T [THEN conjunct2, THEN conjunct2, rule_format, OF rej,
      of example_saver None example_world failing_main "''changed''"]
  have p2: "SimpleConfigSaver_body example_env example_saver None rejected_request example_world
     = Return () example_world \<and>
   ControllerPost_body failing_main None ''changed'' rejected_request example_world
     = Return () example_world"
    by simp
  from p1 p2 show ?thesis by blast
qed

section \<open>Properties of the deferred extra handler\<close>

lemma FormParserMW_shape:
  "(\<exists>p w'. \<forall>inner. FormParserMW e inner dst r w = Panic p w') \<or>
   (\<exists>r' w'. \<forall>inner. FormParserMW e inner dst r w = inner r' w')"
proof (cases "parsed_body e r")
  case (Inl err)
  then have "\<forall>inner. FormParserMW e inner dst r w = Panic (Error err) w"
    by (simp add: FormParserMW_def parsed_body_def)
  then show ?thesis by blast
next
  case (Inr vals)
  show ?thesis
  proof (cases "GetBaseCPContextData (ctx r)")
    case None
    with Inr have "\<forall>inner. FormParserMW e inner dst r w =
        Panic ''interface conversion: interface {} is nil'' w"
      by (simp add: FormParserMW_def parsed_body_def)
    then show ?thesis by blast
  next
    case (Some x)
    obtain client g ta where x: "x = (client, g, ta)" by (cases x)
    obtain decoded derr where d: "Decode e dst vals = (decoded, derr)"
      by (cases "Decode e dst vals")
    obtain ok als where v: "ValidateForm e (guild_at w g) decoded = (ok, als)"
      by (cases "ValidateForm e (guild_at w g) decoded")
    show ?thesis
    proof (cases derr)
      case None
      show ?thesis
      proof (cases "AddAlerts ta als w")
        case None
        with Inr Some x d v \<open>derr = None\<close>
        have "\<forall>inner. FormParserMW e inner dst r w = Panic ''assignment to entry in nil map'' w"
          by (simp add: FormParserMW_def parsed_body_def)
        then show ?thesis by blast
      next
        case (Some w1)
        with Inr \<open>GetBaseCPContextData (ctx r) = Some x\<close> x d v \<open>derr = None\<close>
        have "\<forall>inner. FormParserMW e inner dst r w =
            inner (r\<lparr>ctx := (ctx r)\<lparr>ContextKeyParsedForm := Some decoded,
                                     ContextKeyFormOk := Some ok\<rparr>\<rparr>) w1"
          by (simp add: FormParserMW_def parsed_body_def)
        then show ?thesis by blast
      qed
    next
      case (Some er)
      note derr = this
      let ?w0 = "log_add LevelError ''Failed decoding form'' (Some er) [] w"
      show ?thesis
      proof (cases "AddAlerts ta [ErrorAlert [''Failed parsing form'']] ?w0")
        case None
        with Inr \<open>GetBaseCPContextData (ctx r) = Some x\<close> x d derr
        have "\<forall>inner. FormParserMW e inner dst r w =
            Panic ''assignment to entry in nil map'' ?w0"
          by (simp add: FormParserMW_def parsed_body_def)
        then show ?thesis by blast
      next
        case (Some w1)
        with Inr \<open>GetBaseCPContextData (ctx r) = Some x\<close> x d derr
        have "\<forall>inner. FormParserMW e inner dst r w =
            inner (r\<lparr>ctx := (ctx r)\<lparr>ContextKeyParsedForm := Some decoded,
                                     ContextKeyFormOk := Some False\<rparr>\<rparr>) w1"
          by (simp add: FormParserMW_def parsed_body_def)
        then show ?thesis by blast
      qed
    qed
  qed
qed

lemma SimpleConfigSaver_body_defers:
  "(\<exists>p. \<forall>h. SimpleConfigSaver_body e t (Some h) r w = Panic p w) \<or>
   (\<exists>out. \<forall>h. SimpleConfigSaver_body e t (Some h) r w = deferred h r out)"
proof (cases "GetBaseCPContextData (ctx r)")
  case None
  then have "\<forall>h. SimpleConfigSaver_body e t (Some h) r w = Panic assert_panic w"
    by (simp add: SimpleConfigSaver_body_def)
  then show ?thesis by blast
next
  case (Some x)
  obtain client g ta where x: "x = (client, g, ta)" by (cases x)
  from Some x show ?thesis
    by (intro disjI2) (simp add: SimpleConfigSaver_body_def, blast)
qed

lemma ControllerPost_body_defers:
  "(\<exists>p. \<forall>h. ControllerPost_body mainHandler (Some h) logMsg r w = Panic p w) \<or>
   (\<exists>out. \<forall>h. ControllerPost_body mainHandler (Some h) logMsg r w = deferred h r out)"
proof (cases "GetBaseCPContextData (ctx r)")
  case None
  then have "\<forall>h. ControllerPost_body mainHandler (Some h) logMsg r w = Panic assert_panic w"
    by (simp add: ControllerPost_body_def)
  then show ?thesis by blast
next
  case (Some x)
  obtain client g ta where x: "x = (client, g, ta)" by (cases x)
  from Some x show ?thesis
    by (intro disjI2) (simp add: ControllerPost_body_def, blast)
qed


text \<open>
  Without any assumption on the request: either wrapper panics before the deferred call
  is registered, in the same way for every extra handler, or it ends with the deferred
  call.
\<close>

lemma wrappers_panic_or_defer:
  "((\<exists>p w'. \<forall>h. SimpleConfigSaverHandler e t (Some h) r w = Panic p w') \<or>
    (\<exists>r' out. \<forall>h. SimpleConfigSaverHandler e t (Some h) r w = deferred h r' out)) \<and>
   ((\<exists>p w'. \<forall>h. ControllerPostHandler e mainHandler (Some h) formData logMsg r w = Panic p w') \<or>
    (\<exists>r' out. \<forall>h. ControllerPostHandler e mainHandler (Some h) formData logMsg r w
        = deferred h r' out)) \<and>
   (GetBaseCPContextData (ctx r) \<noteq> None \<and> ContextKeyParsedForm (ctx r) \<noteq> None \<and>
    ContextKeyFormOk (ctx r) = Some False \<longrightarrow>
      (\<forall>h. SimpleConfigSaver_body e t (Some h) r w = h r w \<and>
           ControllerPost_body mainHandler (Some h) logMsg r w = h r w)) \<and>
   (\<forall>client g ta d er w1 w2.
      GetBaseCPContextData (ctx r) = Some (client, g, ta) \<and>
      ContextKeyFormOk (ctx r) = Some True \<and>
      mainHandler r w = Return (d, Some er) w1 \<and>
      checkControllerError (Some g) (case d of None \<Rightarrow> ta | Some x \<Rightarrow> x) (Some er) w1
        = Return () w2 \<longrightarrow>
      (\<forall>h. ControllerPost_body mainHandler (Some h) logMsg r w = h r w2))"
proof (intro conjI)
  show "(\<exists>p w'. \<forall>h. SimpleConfigSaverHandler e t (Some h) r w = Panic p w') \<or>
    (\<exists>r' out. \<forall>h. SimpleConfigSaverHandler e t (Some h) r w = deferred h r' out)"
    using FormParserMW_shape [of e "Saver_Type t" r w]
  proof
    assume "\<exists>p w'. \<forall>inner. FormParserMW e inner (Saver_Type t) r w = Panic p w'"
    then show ?thesis by (simp add: SimpleConfigSaverHandler_def) blast
  next
    assume "\<exists>r' w'. \<forall>inner. FormParserMW e inner (Saver_Type t) r w = inner r' w'"
    then obtain r' w' where run: "\<forall>inner. FormParserMW e inner (Saver_Type t) r w = inner r' w'"
      by blast
    from SimpleConfigSaver_body_defers [of e t r' w'] run show ?thesis
      by (simp add: SimpleConfigSaverHandler_def) blast
  qed
next
  show "(\<exists>p w'. \<forall>h. ControllerPostHandler e mainHandler (Some h) formData logMsg r w = Panic p w') \<or>
    (\<exists>r' out. \<forall>h. ControllerPostHandler e mainHandler (Some h) formData logMsg r w
        = deferred h r' out)"
    using FormParserMW_shape [of e formData r w]
  proof
    assume "\<exists>p w'. \<forall>inner. FormParserMW e inner formData r w = Panic p w'"
    then show ?thesis by (simp add: ControllerPostHandler_def) blast
  next
    assume "\<exists>r' w'. \<forall>inner. FormParserMW e inner formData r w = inner r' w'"
    then obtain r' w' where run: "\<forall>inner. FormParserMW e inner formData r w = inner r' w'"
      by blast
    from ControllerPost_body_defers [of mainHandler logMsg r' w'] run show ?thesis
      by (simp add: ControllerPostHandler_def) blast
  qed
next
  show "GetBaseCPContextData (ctx r) \<noteq> None \<and> ContextKeyParsedForm (ctx r) \<noteq> None \<and>
    ContextKeyFormOk (ctx r) = Some False \<longrightarrow>
      (\<forall>h. SimpleConfigSaver_body e t (Some h) r w = h r w \<and>
           ControllerPost_body mainHandler (Some h) logMsg r w = h r w)"
    by (auto simp: SimpleConfigSaver_body_def ControllerPost_body_def)
next
  show "\<forall>client g ta d er w1 w2.
      GetBaseCPContextData (ctx r) = Some (client, g, ta) \<and>
      ContextKeyFormOk (ctx r) = Some True \<and>
      mainHandler r w = Return (d, Some er) w1 \<and>
      checkControllerError (Some g) (case d of None \<Rightarrow> ta | Some x \<Rightarrow> x) (Some er) w1
        = Return () w2 \<longrightarrow>
      (\<forall>h. ControllerPost_body mainHandler (Some h) logMsg r w = h r w2)"
    by (simp add: ControllerPost_body_def)
qed

lemma GetBaseCPContextData_form_keys:
  "GetBaseCPContextData (c\<lparr>ContextKeyParsedForm := x, ContextKeyFormOk := y\<rparr>)
     = GetBaseCPContextData c"
  by (simp add: GetBaseCPContextData_def RedisClientFromContext_def split: option.splits)

lemma FormParserMW_runs_inner:
  assumes p: "parsed_body e r = Inr values"
    and c: "GetBaseCPContextData (ctx r) = Some (client, g, ta)"
    and t: "tmpl_at w ta = Some t"
  shows "\<exists>r' w'. (\<forall>inner. FormParserMW e inner dst r w = inner r' w') \<and>
      GetBaseCPContextData (ctx r') = Some (client, g, ta)"
proof -
  obtain decoded derr where d: "Decode e dst values = (decoded, derr)"
    by (cases "Decode e dst values")
  show ?thesis
  proof (cases derr)
    case None
    with d have d': "Decode e dst values = (decoded, None)" by simp
    from FormParserMW_decoded [OF p c t d']
    obtain w' where "\<forall>inner. FormParserMW e inner dst r w =
        inner (r\<lparr>ctx := (ctx r)\<lparr>ContextKeyParsedForm := Some decoded,
            ContextKeyFormOk := Some (fst (ValidateForm e (guild_at w g) decoded))\<rparr>\<rparr>) w'"
      by blast
    moreover have "GetBaseCPContextData
        (ctx (r\<lparr>ctx := (ctx r)\<lparr>ContextKeyParsedForm := Some decoded,
            ContextKeyFormOk := Some (fst (ValidateForm e (guild_at w g) decoded))\<rparr>\<rparr>))
        = Some (client, g, ta)"
      using c by (simp add: GetBaseCPContextData_form_keys)
    ultimately show ?thesis by blast
  next
    case (Some er)
    with d have d': "Decode e dst values = (decoded, Some er)" by simp
    from FormParserMW_decode_failed [OF p c t d']
    obtain w' where "\<forall>inner. FormParserMW e inner dst r w =
        inner (r\<lparr>ctx := (ctx r)\<lparr>ContextKeyParsedForm := Some decoded,
            ContextKeyFormOk := Some False\<rparr>\<rparr>) w'"
      by blast
    moreover have "GetBaseCPContextData
        (ctx (r\<lparr>ctx := (ctx r)\<lparr>ContextKeyParsedForm := Some decoded,
            ContextKeyFormOk := Some False\<rparr>\<rparr>)) = Some (client, g, ta)"
      using c by (simp add: GetBaseCPContextData_form_keys)
    ultimately show ?thesis by blast
  qed
qed

lemma SimpleConfigSaver_body_deferred:
  assumes "GetBaseCPContextData (ctx r) = Some (client, g, ta)"
  shows "\<exists>out. \<forall>h. SimpleConfigSaver_body e t (Some h) r w = deferred h r out"
  using assms by (simp add: SimpleConfigSaver_body_def, blast)

lemma ControllerPost_body_deferred:
  assumes "GetBaseCPContextData (ctx r) = Some (client, g, ta)"
  shows "\<exists>out. \<forall>h. ControllerPost_body mainHandler (Some h) logMsg r w = deferred h r out"
  using assms by (simp add: ControllerPost_body_def, blast)

lemma bodies_on_rejected_form:
  assumes "GetBaseCPContextData (ctx r) = Some (client, g, ta)"
    and "ContextKeyParsedForm (ctx r) = Some decoded"
    and "ContextKeyFormOk (ctx r) = Some False"
  shows "SimpleConfigSaver_body e t (Some h) r w = h r w"
    and "ControllerPost_body mainHandler (Some h) logMsg r w = h r w"
  using assms by (simp_all add: SimpleConfigSaver_body_def ControllerPost_body_def)

lemma ControllerPost_body_on_error:
  assumes "GetBaseCPContextData (ctx r) = Some (client, g, ta)"
    and "ContextKeyFormOk (ctx r) = Some True"
    and "mainHandler r w = Return (d, Some er) w2"
    and "checkControllerError (Some g) (case d of None \<Rightarrow> ta | Some x \<Rightarrow> x) (Some er) w2
        = Return () w3"
  shows "ControllerPost_body mainHandler (Some h) logMsg r w = h r w3"
  using assms by (simp add: ControllerPost_body_def)

text \<open>
  Claim C9. Let the body of the request parse and let the context hold the active
  organization and the render data, so that the wrapper reaches the handler it gives to
  the form pipeline. Then, with an extra handler \<open>h\<close>, \<^verbatim>\<open>SimpleConfigSaverHandler\<close> and
  \<^verbatim>\<open>ControllerPostHandler\<close> end by running \<open>h\<close> as a deferred call on the outcome of the
  rest, whatever that outcome is, and that outcome does not depend on \<open>h\<close>. In
  particular, when decoding fails (flag \<open>False\<close>, nothing persisted) the result of either
  wrapper is that of \<open>h\<close> on a world with no further external call; and when the form is
  accepted and the main handler returns an error, the result of \<^verbatim>\<open>ControllerPostHandler\<close>
  is that of \<open>h\<close> on the world left by the error report.
\<close>

theorem extra_handler_always_runs:
  assumes p: "parsed_body e r = Inr values"
    and c: "GetBaseCPContextData (ctx r) = Some (client, g, ta)"
    and t: "tmpl_at w ta = Some t"
  shows
   "(\<exists>r' out. \<forall>h. SimpleConfigSaverHandler e sv (Some h) r w = deferred h r' out) \<and>
    (\<exists>r' out. \<forall>h. ControllerPostHandler e mainHandler (Some h) formData logMsg r w
        = deferred h r' out) \<and>
    (\<forall>decoded er. Decode e (Saver_Type sv) values = (decoded, Some er) \<longrightarrow>
       (\<exists>w'. (\<forall>h. SimpleConfigSaverHandler e sv (Some h) r w =
                 h (r\<lparr>ctx := (ctx r)\<lparr>ContextKeyParsedForm := Some decoded,
                                          ContextKeyFormOk := Some False\<rparr>\<rparr>) w') \<and>
              calls w' = calls w)) \<and>
    (\<forall>decoded er. Decode e formData values = (decoded, Some er) \<longrightarrow>
       (\<exists>w'. (\<forall>h. ControllerPostHandler e mainHandler (Some h) formData logMsg r w =
                 h (r\<lparr>ctx := (ctx r)\<lparr>ContextKeyParsedForm := Some decoded,
                                          ContextKeyFormOk := Some False\<rparr>\<rparr>) w') \<and>
              calls w' = calls w)) \<and>
    (\<forall>decoded als w1 d er w2 w3.
       Decode e formData values = (decoded, None) \<and>
       ValidateForm e (guild_at w g) decoded = (True, als) \<and>
       AddAlerts ta als w = Some w1 \<and>
       mainHandler (r\<lparr>ctx := (ctx r)\<lparr>ContextKeyParsedForm := Some decoded,
                                       ContextKeyFormOk := Some True\<rparr>\<rparr>) w1
         = Return (d, Some er) w2 \<and>
       checkControllerError (Some g) (case d of None \<Rightarrow> ta | Some x \<Rightarrow> x) (Some er) w2
         = Return () w3 \<longrightarrow>
       (\<forall>h. ControllerPostHandler e mainHandler (Some h) formData logMsg r w =
              h (r\<lparr>ctx := (ctx r)\<lparr>ContextKeyParsedForm := Some decoded,
                                       ContextKeyFormOk := Some True\<rparr>\<rparr>) w3))"
proof (intro conjI allI impI)
  from FormParserMW_runs_inner [OF p c t, of "Saver_Type sv"]
  obtain r' w' where run: "\<forall>inner. FormParserMW e inner (Saver_Type sv) r w = inner r' w'"
    and c': "GetBaseCPContextData (ctx r') = Some (client, g, ta)"
    by blast
  from SimpleConfigSaver_body_deferred [OF c', of e sv w']
  obtain out where "\<forall>h. SimpleConfigSaver_body e sv (Some h) r' w' = deferred h r' out"
    by blast
  with run have "\<forall>h. SimpleConfigSaverHandler e sv (Some h) r w = deferred h r' out"
    by (simp add: SimpleConfigSaverHandler_def)
  then show "\<exists>r' out. \<forall>h. SimpleConfigSaverHandler e sv (Some h) r w = deferred h r' out"
    by blast
next
  from FormParserMW_runs_inner [OF p c t, of formData]
  obtain r' w' where run: "\<forall>inner. FormParserMW e inner formData r w = inner r' w'"
    and c': "GetBaseCPContextData (ctx r') = Some (client, g, ta)"
    by blast
  from ControllerPost_body_deferred [OF c', of mainHandler logMsg w']
  obtain out where "\<forall>h. ControllerPost_body mainHandler (Some h) logMsg r' w' = deferred h r' out"
    by blast
  with run have "\<forall>h. ControllerPostHandler e mainHandler (Some h) formData logMsg r w
      = deferred h r' out"
    by (simp add: ControllerPostHandler_def)
  then show "\<exists>r' out. \<forall>h. ControllerPostHandler e mainHandler (Some h) formData logMsg r w
      = deferred h r' out"
    by blast
next
  fix decoded er
  assume d: "Decode e (Saver_Type sv) values = (decoded, Some er)"
  let ?r' = "r\<lparr>ctx := (ctx r)\<lparr>ContextKeyParsedForm := Some decoded,
      ContextKeyFormOk := Some False\<rparr>\<rparr>"
  from FormParserMW_decode_failed [OF p c t d]
  obtain w' where run: "\<forall>inner. FormParserMW e inner (Saver_Type sv) r w = inner ?r' w'"
    and calls: "calls w' = calls w"
    by blast
  have c': "GetBaseCPContextData (ctx ?r') = Some (client, g, ta)"
    using c by (simp add: GetBaseCPContextData_form_keys)
  have "\<forall>h. SimpleConfigSaver_body e sv (Some h) ?r' w' = h ?r' w'"
    using bodies_on_rejected_form(1) [OF c', of decoded] by simp
  with run have "\<forall>h. SimpleConfigSaverHandler e sv (Some h) r w = h ?r' w'"
    by (simp add: SimpleConfigSaverHandler_def)
  with calls show "\<exists>w'. (\<forall>h. SimpleConfigSaverHandler e sv (Some h) r w = h ?r' w') \<and>
      calls w' = calls w"
    by blast
next
  fix decoded er
  assume d: "Decode e formData values = (decoded, Some er)"
  let ?r' = "r\<lparr>ctx := (ctx r)\<lparr>ContextKeyParsedForm := Some decoded,
      ContextKeyFormOk := Some False\<rparr>\<rparr>"
  from FormParserMW_decode_failed [OF p c t d]
  obtain w' where run: "\<forall>inner. FormParserMW e inner formData r w = inner ?r' w'"
    and calls: "calls w' = calls w"
    by blast
  have c': "GetBaseCPContextData (ctx ?r') = Some (client, g, ta)"
    using c by (simp add: GetBaseCPContextData_form_keys)
  have "\<forall>h. ControllerPost_body mainHandler (Some h) logMsg ?r' w' = h ?r' w'"
    using bodies_on_rejected_form(2) [OF c', of decoded] by simp
  with run have "\<forall>h. ControllerPostHandler e mainHandler (Some h) formData logMsg r w = h ?r' w'"
    by (simp add: ControllerPostHandler_def)
  with calls show "\<exists>w'. (\<forall>h. ControllerPostHandler e mainHandler (Some h) formData logMsg r w
      = h ?r' w') \<and> calls w' = calls w"
    by blast
next
  fix decoded als w1 d er w2 w3 h
  let ?r' = "r\<lparr>ctx := (ctx r)\<lparr>ContextKeyParsedForm := Some decoded,
      ContextKeyFormOk := Some True\<rparr>\<rparr>"
  assume a: "Decode e formData values = (decoded, None) \<and>
       ValidateForm e (guild_at w g) decoded = (True, als) \<and>
       AddAlerts ta als w = Some w1 \<and>
       mainHandler ?r' w1 = Return (d, Some er) w2 \<and>
       checkControllerError (Some g) (case d of None \<Rightarrow> ta | Some x \<Rightarrow> x) (Some er) w2
         = Return () w3"
  have run: "\<forall>inner. FormParserMW e inner formData r w = inner ?r' w1"
    using p c a by (simp add: FormParserMW_def parsed_body_def)
  have c': "GetBaseCPContextData (ctx ?r') = Some (client, g, ta)"
    using c by (simp add: GetBaseCPContextData_form_keys)
  have "ControllerPost_body mainHandler (Some h) logMsg ?r' w1 = h ?r' w3"
    using ControllerPost_body_on_error [OF c' _ _ _, of mainHandler w1 d er w2 w3] a by simp
  with run show "ControllerPostHandler e mainHandler (Some h) formData logMsg r w = h ?r' w3"
    by (simp add: ControllerPostHandler_def)
qed

theorem extra_handler_always_runs_witness:
  "(\<exists>w'. SimpleConfigSaverHandler example_env example_saver (Some marking_handler)
            example_request example_world = marking_handler rejected_request w' \<and>
          calls w' = []) \<and>
   (\<exists>w'. ControllerPostHandler example_env failing_main (Some marking_handler) ''strict''
            ''changed'' example_request example_world = marking_handler rejected_request w' \<and>
          calls w' = []) \<and>
   (\<exists>w3. ControllerPostHandler example_env failing_main (Some marking_handler) ''loose''
            ''changed'' example_request example_world = marking_handler accepted_request w3 \<and>
          Alerts (tmpls w3 ! 0) =
            [\<lparr>Style = AlertDanger, Message = ''An error occured... Contact support.''\<rparr>])"
proof -
  have p: "parsed_body example_env example_request = Inr [(''name'', ''hello'')]"
    by (simp add: parsed_body_def example_env_def example_request_def)
  have c: "GetBaseCPContextData (ctx example_request) = Some (None, 0, 0)"
    by (simp add: GetBaseCPContextData_def RedisClientFromContext_def example_request_def
        empty_context_def)
  have t: "tmpl_at example_world 0 = Some \<lparr>Fields = [], Alerts = []\<rparr>"
    by (simp add: tmpl_at_def example_world_def)
  have d1: "Decode example_env (Saver_Type example_saver) [(''name'', ''hello'')]
      = ([(''name'', ''hello'')], Some (OtherError ''schema mismatch''))"
    by (simp add: example_env_def example_saver_def)
  have d2: "Decode example_env ''strict'' [(''name'', ''hello'')]
      = ([(''name'', ''hello'')], Some (OtherError ''schema mismatch''))"
    by (simp add: example_env_def)
  have rr: "example_request\<lparr>ctx := (ctx example_request)
      \<lparr>ContextKeyParsedForm := Some [(''name'', ''hello'')], ContextKeyFormOk := Some False\<rparr>\<rparr>
      = rejected_request"
    by (simp add: rejected_request_def)
  have ra: "example_request\<lparr>ctx := (ctx example_request)
      \<lparr>ContextKeyParsedForm := Some [(''name'', ''hello'')], ContextKeyFormOk := Some True\<rparr>\<rparr>
      = accepted_request"
    by (simp add: accepted_request_def)
  have c0: "calls example_world = []"
    by (simp add: example_world_def)
  define w3 where "w3 = log_add LevelError ''Web handler reported error''
      (Some (OtherError ''database down'')) [(''guild'', ''42'')]
      (example_world\<lparr>tmpls := [\<lparr>Fields = [],
         Alerts = [\<lparr>Style = AlertDanger, Message = ''An error occured... Contact support.''\<rparr>]\<rparr>]\<rparr>)"
  have al: "Alerts (tmpls w3 ! 0) =
      [\<lparr>Style = AlertDanger, Message = ''An error occured... Contact support.''\<rparr>]"
    by (simp add: w3_def log_add_def)
  have acc: "Decode example_env ''loose'' [(''name'', ''hello'')] = ([(''name'', ''hello'')], None) \<and>
      ValidateForm example_env (guild_at example_world 0) [(''name'', ''hello'')] = (True, []) \<and>
      AddAlerts 0 [] example_world = Some example_world \<and>
      failing_main (example_request\<lparr>ctx := (ctx example_request)
          \<lparr>ContextKeyParsedForm := Some [(''name'', ''hello'')], ContextKeyFormOk := Some True\<rparr>\<rparr>)
          example_world
        = Return (None, Some (OtherError ''database down'')) example_world \<and>
      checkControllerError (Some 0) (case None of None \<Rightarrow> 0 | Some x \<Rightarrow> x)
        (Some (OtherError ''database down'')) example_world = Return () w3"
    by (simp add: example_env_def failing_main_def checkControllerError_def
        AddAlerts_def tmpl_at_def guild_at_def example_world_def ErrorAlert_def w3_def
        example_guild_def)
  note T1 = extra_handler_always_runs [OF p c t, of example_saver failing_main "''strict''"
      "''changed''"]
  note T2 = extra_handler_always_runs [OF p c t, of example_saver failing_main "''loose''"
      "''changed''"]
  from T1 [THEN conjunct2, THEN conjunct2, THEN conjunct1, rule_format, OF d1]
  have p1: "\<exists>w'. SimpleConfigSaverHandler example_env example_saver (Some marking_handler)
            example_request example_world = marking_handler rejected_request w' \<and> calls w' = []"
    unfolding rr c0 by blast
  from T1 [THEN conjunct2, THEN conjunct2, THEN conjunct2, THEN conjunct1, rule_format, OF d2]
  have p2: "\<exists>w'. ControllerPostHandler example_env failing_main (Some marking_handler) ''strict''
            ''changed'' example_request example_world = marking_handler rejected_request w' \<and>
          calls w' = []"
    unfolding rr c0 by blast
  from T2 [THEN conjunct2, THEN conjunct2, THEN conjunct2, THEN conjunct2, rule_format, OF acc]
  have p3: "ControllerPostHandler example_env failing_main (Some marking_handler) ''loose''
            ''changed'' example_request example_world = marking_handler accepted_request w3"
    unfolding ra by blast
  from p1 p2 p3 al show ?thesis by blast
qed

end
